theory Spec2Isabelle
  imports Complex_Main "HOL-Library.AList" "HOL-Library.Sublist"
begin

section \<open>Python values and errors\<close>

text \<open>
  The client and the serializers handle decoded JSON and ROS message fields, which Python
  types dynamically. One datatype holds every value that can occur: the JSON values, and
  the four single-field enumeration messages of \<open>interop.msg\<close> (\<open>Color\<close>,
  \<open>Orientation\<close>, \<open>Shape\<close>, \<open>TargetType\<close>), each a wrapper around its \<open>data\<close>
  field. A JSON object is an association list read with \<open>map_of\<close>. Floats are real
  numbers: the model computes the exact value that the floating-point code approximates
  (see the section on unit conversion).
\<close>

datatype enum_class = Color | Orientation | Shape | TargetType

datatype pyval =
    PNone
  | PBool bool
  | PInt int
  | PFloat real
  | PStr string
  | PList "pyval list"
  | PDict "(string \<times> pyval) list"
  | PEnum enum_class pyval

type_synonym dict = "(string \<times> pyval) list"

text \<open>
  Every exception the modelled code can raise is a value. \<open>HTTPError\<close> carries the
  status code and the URL of the response that \<open>raise_for_status\<close> rejected.
\<close>

datatype error =
    KeyError string
  | TypeError
  | ValueError
  | LookupError string
  | UnboundLocalError string
  | OverflowError
  | HTTPError nat string
  | Timeout
  | ConnectionError
  | JSONDecodeError

text \<open>Python's exception hierarchy: \<open>KeyError\<close> is a subclass of \<open>LookupError\<close>.\<close>

fun is_KeyError :: "error \<Rightarrow> bool" where
  "is_KeyError (KeyError k) = True"
| "is_KeyError e = False"

fun is_LookupError :: "error \<Rightarrow> bool" where
  "is_LookupError (LookupError m) = True"
| "is_LookupError (KeyError k) = True"
| "is_LookupError e = False"

text \<open>Sequencing of computations that may raise: the first error ends the computation.\<close>

definition bind_err :: "error + 'a \<Rightarrow> ('a \<Rightarrow> error + 'b) \<Rightarrow> error + 'b" where
  "bind_err m f = (case m of Inl e \<Rightarrow> Inl e | Inr v \<Rightarrow> f v)"

text \<open>A \<open>for\<close> loop that appends one result per element and stops at the first error.\<close>

fun for_each :: "('a \<Rightarrow> error + 'b) \<Rightarrow> 'a list \<Rightarrow> error + 'b list" where
  "for_each f [] = Inr []"
| "for_each f (v # vs) =
     (case f v of
        Inl e \<Rightarrow> Inl e
      | Inr r \<Rightarrow> (case for_each f vs of Inl e \<Rightarrow> Inl e | Inr rs \<Rightarrow> Inr (r # rs)))"

text \<open>\<open>v[key]\<close> with a string key: only a dictionary can be subscripted by a string.\<close>

fun getitem :: "pyval \<Rightarrow> string \<Rightarrow> error + pyval" where
  "getitem (PDict kvs) k = (case map_of kvs k of None \<Rightarrow> Inl (KeyError k) | Some v \<Rightarrow> Inr v)"
| "getitem v k = Inl TypeError"

text \<open>
  \<open>key in v\<close> with a string key: key membership in a dictionary, element membership in
  a list, substring test in a string, \<open>TypeError\<close> otherwise.
\<close>

fun contains :: "pyval \<Rightarrow> string \<Rightarrow> error + bool" where
  "contains (PDict kvs) k = Inr (map_of kvs k \<noteq> None)"
| "contains (PList vs) k = Inr (PStr k \<in> set vs)"
| "contains (PStr s) k = Inr (sublist k s)"
| "contains v k = Inl TypeError"

text \<open>
  \<open>for x in v\<close>: the elements of a list, the keys of a dictionary, the characters of a
  string; other values are not iterable.
\<close>

fun py_iter :: "pyval \<Rightarrow> error + pyval list" where
  "py_iter (PList vs) = Inr vs"
| "py_iter (PDict kvs) = Inr (map (\<lambda>kv. PStr (fst kv)) kvs)"
| "py_iter (PStr s) = Inr (map (\<lambda>c. PStr [c]) s)"
| "py_iter v = Inl TypeError"

text \<open>Truth value of a Python object, as \<open>if v:\<close> and \<open>bool(v)\<close> compute it.\<close>

fun truthy :: "pyval \<Rightarrow> bool" where
  "truthy PNone = False"
| "truthy (PBool b) = b"
| "truthy (PInt i) = (i \<noteq> 0)"
| "truthy (PFloat r) = (r \<noteq> 0)"
| "truthy (PStr s) = (s \<noteq> [])"
| "truthy (PList vs) = (vs \<noteq> [])"
| "truthy (PDict kvs) = (kvs \<noteq> [])"
| "truthy (PEnum c v) = True"

section \<open>External collaborators\<close>

text \<open>
  Functions of libraries outside the repository are parameters of the model:
  \<^item> \<open>from_latlon\<close>: \<open>utm.from_latlon\<close>, reduced to the easting and northing that the
    callers keep; it receives the wire values as they are and may raise;
  \<^item> \<open>get_rostime\<close>: the \<open>k\<close>-th reading of the ROS clock during one call;
  \<^item> \<open>parse_float\<close>, \<open>parse_int\<close>: Python's reading of a string as a number
    (\<open>None\<close>: the string is not a number, \<open>ValueError\<close>);
  \<^item> \<open>str_of\<close>: \<open>str(v)\<close> for a value that is not a string;
  \<^item> \<open>parse_datetime\<close>: \<open>dateutil.parser.parse\<close>.
\<close>

record rostime =
  secs :: int
  nsecs :: int

record datetime =
  year :: int
  month :: int
  day :: int
  hour :: int
  minute :: int
  second :: int
  microsecond :: int
  utcoffset :: "int option"

record externals =
  from_latlon :: "pyval \<Rightarrow> pyval \<Rightarrow> error + real \<times> real"
  get_rostime :: "nat \<Rightarrow> rostime"
  parse_float :: "string \<Rightarrow> real option"
  parse_int :: "string \<Rightarrow> int option"
  str_of :: "pyval \<Rightarrow> string"
  parse_datetime :: "string \<Rightarrow> error + datetime"

section \<open>Unit conversion (serializers.py)\<close>

text \<open>
  \<open>float(v)\<close>: a number is its value, a boolean is 0 or 1, a string is parsed, any
  other value raises \<open>TypeError\<close>. An integer of magnitude \<open>2 ^ 1024 - 2 ^ 970\<close> or
  more would round beyond the largest double, and \<open>float\<close> raises \<open>OverflowError\<close>.

  A float is modelled by the real number it denotes. Where the program rounds a result to
  the nearest double, the model has the exact value; \<open>inf\<close> and \<open>nan\<close> are not values
  of the model. The examples of this theory use numbers on which both agree as far as
  Python prints them (\<open>10 * 0.3048\<close> is \<open>3.048\<close>).
\<close>

fun py_float :: "externals \<Rightarrow> pyval \<Rightarrow> error + real" where
  "py_float ext (PFloat r) = Inr r"
| "py_float ext (PInt i) =
     (if 2 ^ 1024 - 2 ^ 970 \<le> \<bar>i\<bar> then Inl OverflowError else Inr (of_int i))"
| "py_float ext (PBool b) = Inr (if b then 1 else 0)"
| "py_float ext (PStr s) = (case parse_float ext s of None \<Rightarrow> Inl ValueError | Some r \<Rightarrow> Inr r)"
| "py_float ext v = Inl TypeError"

text \<open>\<open>feet_to_meters(ft)\<close> is \<open>float(ft) * 0.3048\<close>.\<close>

definition feet_to_meters :: "externals \<Rightarrow> pyval \<Rightarrow> error + real" where
  "feet_to_meters ext ft = bind_err (py_float ext ft) (\<lambda>f. Inr (f * 0.3048))"

section \<open>Timestamps (serializers.py, iso8601\_to\_rostime)\<close>

text \<open>
  The arithmetic of Python's \<open>datetime\<close>: the proleptic Gregorian ordinal of a date,
  the normalised \<open>timedelta\<close> (\<open>0 \<le> seconds < 86400\<close>, \<open>0 \<le> microseconds < 10\<^sup>6\<close>),
  and the difference of two datetimes, which raises \<open>TypeError\<close> when exactly one of
  them is naive. \<open>utcoffset\<close> is \<open>None\<close> for a naive datetime and the offset in
  seconds otherwise.
\<close>

record timedelta =
  days :: int
  seconds :: int
  microseconds :: int

definition is_leap :: "int \<Rightarrow> bool" where
  "is_leap y = (y mod 4 = 0 \<and> (y mod 100 \<noteq> 0 \<or> y mod 400 = 0))"

definition days_before_year :: "int \<Rightarrow> int" where
  "days_before_year y = (y - 1) * 365 + (y - 1) div 4 - (y - 1) div 100 + (y - 1) div 400"

definition days_before_month :: "int \<Rightarrow> int \<Rightarrow> int" where
  "days_before_month y m =
     [0, 31, 59, 90, 120, 151, 181, 212, 243, 273, 304, 334] ! nat (m - 1)
     + (if 2 < m \<and> is_leap y then 1 else 0)"

definition toordinal :: "datetime \<Rightarrow> int" where
  "toordinal t = days_before_year (year t) + days_before_month (year t) (month t) + day t"

definition timedelta_new :: "int \<Rightarrow> int \<Rightarrow> int \<Rightarrow> timedelta" where
  "timedelta_new d s us =
     (let total = (d * 86400 + s) * 1000000 + us in
      \<lparr>days = total div 86400000000,
       seconds = (total mod 86400000000) div 1000000,
       microseconds = total mod 1000000\<rparr>)"

definition datetime_sub :: "datetime \<Rightarrow> datetime \<Rightarrow> error + timedelta" where
  "datetime_sub t1 t2 =
     (let d = toordinal t1 - toordinal t2;
          s = (second t1 + minute t1 * 60 + hour t1 * 3600)
              - (second t2 + minute t2 * 60 + hour t2 * 3600);
          us = microsecond t1 - microsecond t2
      in case (utcoffset t1, utcoffset t2) of
           (None, None) \<Rightarrow> Inr (timedelta_new d s us)
         | (Some off1, Some off2) \<Rightarrow> Inr (timedelta_new d (s + off2 - off1) us)
         | _ \<Rightarrow> Inl TypeError)"

definition total_seconds :: "timedelta \<Rightarrow> real" where
  "total_seconds dt =
     of_int ((days dt * 86400 + seconds dt) * 1000000 + microseconds dt) / 1000000"

text \<open>\<open>int(r)\<close> on a float truncates towards zero.\<close>

definition py_int_of_float :: "real \<Rightarrow> int" where
  "py_int_of_float r = (if 0 \<le> r then \<lfloor>r\<rfloor> else \<lceil>r\<rceil>)"

text \<open>\<open>datetime.utcfromtimestamp(0)\<close> with \<open>tzinfo\<close> replaced by UTC.\<close>

definition epoch :: datetime where
  "epoch = \<lparr>year = 1970, month = 1, day = 1, hour = 0, minute = 0, second = 0,
            microsecond = 0, utcoffset = Some 0\<rparr>"

datatype time_msg = Time rostime

text \<open>
  \<open>not t.utcoffset()\<close> holds for a naive datetime (\<open>None\<close>) and for an offset of
  zero (an empty \<open>timedelta\<close> is false); in both cases the time zone becomes UTC.
\<close>

definition iso8601_to_rostime :: "externals \<Rightarrow> string \<Rightarrow> error + time_msg" where
  "iso8601_to_rostime ext iso_str =
     bind_err (parse_datetime ext iso_str) (\<lambda>t0.
       let t = (if utcoffset t0 = None \<or> utcoffset t0 = Some 0
                then t0\<lparr>utcoffset := Some 0\<rparr> else t0)
       in bind_err (datetime_sub t epoch) (\<lambda>dt.
            Inr (Time \<lparr>secs = py_int_of_float (total_seconds dt),
                       nsecs = microseconds dt * 1000\<rparr>)))"

section \<open>ROS messages\<close>

text \<open>
  The message types the deserializers fill, with the fields the code reads or writes.
  A message array (\<open>FlyZoneArray\<close>, \<open>MarkerArray\<close>) is the list of its elements.
\<close>

record header =
  seq :: nat
  stamp :: rostime
  frame_id :: string

datatype point = Point (point_x: real) (point_y: real) (point_z: real)

datatype vector3 = Vector3 (vector_x: real) (vector_y: real) (vector_z: real)

datatype quaternion = Quaternion real real real real

datatype color_rgba = ColorRGBA real real real real

datatype duration = Duration real

datatype marker_shape =
    ARROW | CUBE | SPHERE | CYLINDER | LINE_STRIP | LINE_LIST | CUBE_LIST | SPHERE_LIST
  | POINTS | TEXT_VIEW_FACING | MESH_RESOURCE | TRIANGLE_LIST

record stamped =
  header :: header

record polygon_stamped = stamped +
  polygon :: "point list"

record point_stamped = stamped +
  point :: point

record flyzone =
  zone :: polygon_stamped
  max_alt :: real
  min_alt :: real

record pose =
  position :: point
  orientation :: quaternion

record marker = stamped +
  ns :: string
  shape :: marker_shape
  pose :: pose
  scale :: vector3
  color :: color_rgba
  lifetime :: duration
  points :: "point list"

text \<open>The default-constructed messages: every number 0, every string and array empty.\<close>

definition Header_init :: header where
  "Header_init = \<lparr>seq = 0, stamp = \<lparr>secs = 0, nsecs = 0\<rparr>, frame_id = []\<rparr>"

definition Marker_init :: marker where
  "Marker_init =
     \<lparr>header = Header_init, ns = [], shape = ARROW,
      pose = \<lparr>position = Point 0 0 0, orientation = Quaternion 0 0 0 0\<rparr>,
      scale = Vector3 0 0 0, color = ColorRGBA 0 0 0 0, lifetime = Duration 0, points = []\<rparr>"

text \<open>The header every function builds first: the clock reading and the caller's frame.\<close>

definition make_header :: "externals \<Rightarrow> nat \<Rightarrow> string \<Rightarrow> header" where
  "make_header ext tick frame = Header_init\<lparr>stamp := get_rostime ext tick, frame_id := frame\<rparr>"

section \<open>Mission deserializer (serializers.py, MissionDeserializer)\<close>

text \<open>
  Each private helper takes the index \<open>tick\<close> of its clock reading. The statements of
  a loop body run in the source's order, so the first failing one decides the error.
\<close>

definition boundary_point :: "externals \<Rightarrow> pyval \<Rightarrow> error + point" where
  "boundary_point ext waypoint =
     bind_err (getitem waypoint ''latitude'') (\<lambda>lat.
     bind_err (getitem waypoint ''longitude'') (\<lambda>lon.
     bind_err (from_latlon ext lat lon) (\<lambda>en.
     Inr (Point (fst en) (snd en) 0))))"

definition flyzone_of :: "externals \<Rightarrow> header \<Rightarrow> pyval \<Rightarrow> error + flyzone" where
  "flyzone_of ext hdr z =
     bind_err (getitem z ''altitude_msl_max'') (\<lambda>amax.
     bind_err (feet_to_meters ext amax) (\<lambda>mx.
     bind_err (getitem z ''altitude_msl_min'') (\<lambda>amin.
     bind_err (feet_to_meters ext amin) (\<lambda>mn.
     bind_err (getitem z ''boundary_pts'') (\<lambda>pts.
     bind_err (py_iter pts) (\<lambda>waypoints.
     bind_err (for_each (boundary_point ext) waypoints) (\<lambda>ps.
     Inr \<lparr>zone = \<lparr>header = hdr, polygon = ps\<rparr>, max_alt = mx, min_alt = mn\<rparr>)))))))"

definition get_flyzone :: "externals \<Rightarrow> nat \<Rightarrow> pyval \<Rightarrow> string \<Rightarrow> error + flyzone list" where
  "get_flyzone ext tick zones frame =
     (let hdr = make_header ext tick frame
      in bind_err (py_iter zones) (for_each (flyzone_of ext hdr)))"

text \<open>A waypoint or search grid point: projected position, then the altitude in meters.\<close>

definition point3_of :: "externals \<Rightarrow> pyval \<Rightarrow> error + point" where
  "point3_of ext p =
     bind_err (getitem p ''latitude'') (\<lambda>lat.
     bind_err (getitem p ''longitude'') (\<lambda>lon.
     bind_err (from_latlon ext lat lon) (\<lambda>en.
     bind_err (getitem p ''altitude_msl'') (\<lambda>alt.
     bind_err (feet_to_meters ext alt) (\<lambda>altitude.
     Inr (Point (fst en) (snd en) altitude))))))"

definition get_waypoints :: "externals \<Rightarrow> nat \<Rightarrow> pyval \<Rightarrow> string \<Rightarrow> error + marker" where
  "get_waypoints ext tick wps frame =
     (let waypoints = Marker_init
            \<lparr>header := make_header ext tick frame, ns := ''waypoints'', shape := POINTS,
             lifetime := Duration 0,
             pose := \<lparr>position = Point 0 0 0, orientation = Quaternion 0 0 0 1\<rparr>,
             scale := Vector3 0.1 0.1 0.1\<rparr>
      in bind_err (py_iter wps) (\<lambda>vs.
         bind_err (for_each (point3_of ext) vs) (\<lambda>ps.
         Inr (waypoints\<lparr>points := ps\<rparr>))))"

definition get_search_grid ::
  "externals \<Rightarrow> nat \<Rightarrow> pyval \<Rightarrow> string \<Rightarrow> error + polygon_stamped" where
  "get_search_grid ext tick grid frame =
     (let hdr = make_header ext tick frame
      in bind_err (py_iter grid) (\<lambda>vs.
         bind_err (for_each (point3_of ext) vs) (\<lambda>ps.
         Inr \<lparr>header = hdr, polygon = ps\<rparr>)))"

text \<open>
  The three located points (air drop, off-axis target, emergent object) are built by
  three functions with the same body.
\<close>

definition located_point :: "externals \<Rightarrow> nat \<Rightarrow> pyval \<Rightarrow> string \<Rightarrow> error + point_stamped" where
  "located_point ext tick loc frame =
     (let hdr = make_header ext tick frame
      in bind_err (getitem loc ''latitude'') (\<lambda>lat.
         bind_err (getitem loc ''longitude'') (\<lambda>lon.
         bind_err (from_latlon ext lat lon) (\<lambda>en.
         Inr \<lparr>header = hdr, point = Point (fst en) (snd en) 0\<rparr>))))"

definition get_airdrop_loc :: "externals \<Rightarrow> nat \<Rightarrow> pyval \<Rightarrow> string \<Rightarrow> error + point_stamped" where
  "get_airdrop_loc = located_point"

definition get_offaxis_targ :: "externals \<Rightarrow> nat \<Rightarrow> pyval \<Rightarrow> string \<Rightarrow> error + point_stamped" where
  "get_offaxis_targ = located_point"

definition emergent_object :: "externals \<Rightarrow> nat \<Rightarrow> pyval \<Rightarrow> string \<Rightarrow> error + point_stamped" where
  "emergent_object = located_point"

type_synonym mission =
  "flyzone list \<times> polygon_stamped \<times> marker \<times> point_stamped \<times> point_stamped \<times> point_stamped"

definition MissionDeserializer_from_dict :: "externals \<Rightarrow> pyval \<Rightarrow> string \<Rightarrow> error + mission" where
  "MissionDeserializer_from_dict ext d frame =
     bind_err (getitem d ''fly_zones'') (\<lambda>fz.
     bind_err (get_flyzone ext 0 fz frame) (\<lambda>flyzones.
     bind_err (getitem d ''search_grid_points'') (\<lambda>sg.
     bind_err (get_search_grid ext 1 sg frame) (\<lambda>search_grid.
     bind_err (getitem d ''mission_waypoints'') (\<lambda>wp.
     bind_err (get_waypoints ext 2 wp frame) (\<lambda>waypoints.
     bind_err (getitem d ''air_drop_pos'') (\<lambda>ad.
     bind_err (get_airdrop_loc ext 3 ad frame) (\<lambda>air_drop_pos.
     bind_err (getitem d ''off_axis_target_pos'') (\<lambda>oa.
     bind_err (get_offaxis_targ ext 4 oa frame) (\<lambda>off_axis_targ.
     bind_err (getitem d ''emergent_last_known_pos'') (\<lambda>em.
     bind_err (emergent_object ext 5 em frame) (\<lambda>emergent_obj.
     Inr (flyzones, search_grid, waypoints, air_drop_pos, off_axis_targ,
          emergent_obj)))))))))))))"

section \<open>Obstacle deserializer (serializers.py, ObstaclesDeserializer)\<close>

definition OBSTACLE_COLOR :: color_rgba where
  "OBSTACLE_COLOR = ColorRGBA (218 / 255) (41 / 255) (28 / 255) 1"

text \<open>The body of the loop over the moving obstacles: a sphere.\<close>

definition moving_marker :: "externals \<Rightarrow> header \<Rightarrow> real \<Rightarrow> pyval \<Rightarrow> error + marker" where
  "moving_marker ext hdr life obj =
     bind_err (getitem obj ''sphere_radius'') (\<lambda>sr.
     bind_err (feet_to_meters ext sr) (\<lambda>radius.
     bind_err (getitem obj ''latitude'') (\<lambda>lat.
     bind_err (getitem obj ''longitude'') (\<lambda>lon.
     bind_err (from_latlon ext lat lon) (\<lambda>en.
     bind_err (getitem obj ''altitude_msl'') (\<lambda>alt.
     bind_err (feet_to_meters ext alt) (\<lambda>altitude.
     Inr (Marker_init
            \<lparr>header := hdr, shape := SPHERE, color := OBSTACLE_COLOR,
             ns := ''moving_obstacles'', lifetime := Duration life,
             scale := Vector3 radius radius radius,
             pose := \<lparr>position = Point (fst en) (snd en) altitude,
                      orientation = Quaternion 0 0 0 0\<rparr>\<rparr>))))))))"

text \<open>The body of the loop over the stationary obstacles: a cylinder.\<close>

definition stationary_marker :: "externals \<Rightarrow> header \<Rightarrow> real \<Rightarrow> pyval \<Rightarrow> error + marker" where
  "stationary_marker ext hdr life obj =
     bind_err (getitem obj ''cylinder_radius'') (\<lambda>cr.
     bind_err (feet_to_meters ext cr) (\<lambda>radius.
     bind_err (getitem obj ''cylinder_height'') (\<lambda>ch.
     bind_err (feet_to_meters ext ch) (\<lambda>height.
     bind_err (getitem obj ''latitude'') (\<lambda>lat.
     bind_err (getitem obj ''longitude'') (\<lambda>lon.
     bind_err (from_latlon ext lat lon) (\<lambda>en.
     Inr (Marker_init
            \<lparr>header := hdr, shape := CYLINDER, color := OBSTACLE_COLOR,
             ns := ''stationary_obstacles'', lifetime := Duration life,
             scale := Vector3 radius radius height,
             pose := \<lparr>position = Point (fst en) (snd en) (height / 2),
                      orientation = Quaternion 0 0 0 0\<rparr>\<rparr>))))))))"

definition ObstaclesDeserializer_from_dict ::
  "externals \<Rightarrow> pyval \<Rightarrow> string \<Rightarrow> real \<Rightarrow> error + marker list \<times> marker list" where
  "ObstaclesDeserializer_from_dict ext d frame life =
     (let hdr = make_header ext 0 frame
      in bind_err (contains d ''moving_obstacles'') (\<lambda>has_moving.
         bind_err (if has_moving
                   then bind_err (getitem d ''moving_obstacles'') (\<lambda>objs.
                        bind_err (py_iter objs) (for_each (moving_marker ext hdr life)))
                   else Inr []) (\<lambda>moving_obstacles.
         bind_err (contains d ''stationary_obstacles'') (\<lambda>has_stationary.
         bind_err (if has_stationary
                   then bind_err (getitem d ''stationary_obstacles'') (\<lambda>objs.
                        bind_err (py_iter objs) (for_each (stationary_marker ext hdr life)))
                   else Inr []) (\<lambda>stationary_obstacles.
         Inr (moving_obstacles, stationary_obstacles))))))"

section \<open>Target serializer (serializers.py, TargetSerializer)\<close>

text \<open>
  The declaration of the \<open>Target\<close> message (\<open>interop/msg/Target.msg\<close>) is not among
  the sources, so the list of its fields is a parameter: \<open>slots\<close> gives, in the order
  of \<open>Target.__slots__\<close>, each field's name and declared type. A field is a string, a
  float, an integer or a boolean, or one of the four enumeration messages, which wrap a
  single scalar \<open>data\<close>. A message is the list of its slots with their current values.
\<close>

datatype scalar_type = T_str | T_float | T_int | T_bool

datatype field_type = Scalar scalar_type | Enum enum_class scalar_type

type_synonym slots = "(string \<times> field_type) list"

type_synonym message = "(string \<times> pyval) list"

fun default_scalar :: "scalar_type \<Rightarrow> pyval" where
  "default_scalar T_str = PStr []"
| "default_scalar T_float = PFloat 0"
| "default_scalar T_int = PInt 0"
| "default_scalar T_bool = PBool False"

fun default_value :: "field_type \<Rightarrow> pyval" where
  "default_value (Scalar t) = default_scalar t"
| "default_value (Enum c t) = PEnum c (default_scalar t)"

text \<open>\<open>Target()\<close>: every field at the default of its declared type.\<close>

definition Target_init :: "slots \<Rightarrow> message" where
  "Target_init sl = map (\<lambda>(a, ty). (a, default_value ty)) sl"

text \<open>\<open>int(v)\<close> and \<open>str(v)\<close>.\<close>

fun py_int :: "externals \<Rightarrow> pyval \<Rightarrow> error + int" where
  "py_int ext (PInt i) = Inr i"
| "py_int ext (PBool b) = Inr (if b then 1 else 0)"
| "py_int ext (PFloat r) = Inr (py_int_of_float r)"
| "py_int ext (PStr s) = (case parse_int ext s of None \<Rightarrow> Inl ValueError | Some i \<Rightarrow> Inr i)"
| "py_int ext v = Inl TypeError"

fun py_str :: "externals \<Rightarrow> pyval \<Rightarrow> string" where
  "py_str ext (PStr s) = s"
| "py_str ext v = str_of ext v"

text \<open>
  \<open>attribute_type(value)\<close>, where \<open>attribute_type\<close> is the class of the field's
  current value: the class of the declared type, since \<open>Target()\<close> holds a value of
  the declared type in every field and the loop only stores values built by that class.
  An enumeration message called with one argument stores it in \<open>data\<close> unchanged.
\<close>

fun construct :: "externals \<Rightarrow> field_type \<Rightarrow> pyval \<Rightarrow> error + pyval" where
  "construct ext (Scalar T_str) v = Inr (PStr (py_str ext v))"
| "construct ext (Scalar T_float) v = bind_err (py_float ext v) (\<lambda>r. Inr (PFloat r))"
| "construct ext (Scalar T_int) v = bind_err (py_int ext v) (\<lambda>i. Inr (PInt i))"
| "construct ext (Scalar T_bool) v = Inr (PBool (truthy v))"
| "construct ext (Enum c t) v = Inr (PEnum c v)"

text \<open>
  \<open>from_msg\<close>: a value whose type is one of \<open>ENUMERATION_TYPES\<close> is replaced by its
  \<open>data\<close>; every value is then stored in the dictionary under the slot's name.
\<close>

fun unwrap :: "pyval \<Rightarrow> pyval" where
  "unwrap (PEnum c v) = v"
| "unwrap v = v"

definition TargetSerializer_from_msg :: "message \<Rightarrow> pyval" where
  "TargetSerializer_from_msg msg =
     PDict (fold (\<lambda>(a, v) d. AList.update a (unwrap v) d) msg [])"

text \<open>
  \<open>from_dict\<close>: the loop over the slots, with the message built so far as accumulator.
\<close>

fun from_dict_loop :: "externals \<Rightarrow> pyval \<Rightarrow> slots \<Rightarrow> message \<Rightarrow> error + message" where
  "from_dict_loop ext d [] msg = Inr msg"
| "from_dict_loop ext d ((a, ty) # rest) msg =
     (case contains d a of
        Inl e \<Rightarrow> Inl e
      | Inr present \<Rightarrow>
          if present then
            (case getitem d a of
               Inl e \<Rightarrow> Inl e
             | Inr v \<Rightarrow>
                 if v \<noteq> PNone then
                   (case construct ext ty v of
                      Inl e \<Rightarrow> Inl e
                    | Inr c \<Rightarrow> from_dict_loop ext d rest (AList.update a c msg))
                 else from_dict_loop ext d rest msg)
          else from_dict_loop ext d rest msg)"

definition TargetSerializer_from_dict :: "externals \<Rightarrow> slots \<Rightarrow> pyval \<Rightarrow> error + message" where
  "TargetSerializer_from_dict ext sl d = from_dict_loop ext d sl (Target_init sl)"

section \<open>HTTP client (client.py, InteroperabilityClient)\<close>

text \<open>
  The client talks to two things outside the program: the ROS shutdown flag and the
  server. Both are scripted by an environment: \<open>is_shutdown env k\<close> is what the
  \<open>k\<close>-th call of \<open>rospy.is_shutdown()\<close> returns, and \<open>server env i sid rq\<close> is what
  the \<open>i\<close>-th request of the run gets when it is sent on session \<open>sid\<close>: a status
  code with the decoded JSON body (\<open>None\<close> when the body is not JSON), or no reply
  because of a timeout or a failed connection. The state holds the attributes of the client object, counters of what has been
  done so far, and the trace of the effects in the order they happened.
\<close>

record http_request =
  req_method :: string
  req_url :: string
  req_timeout :: real
  req_kwargs :: dict

record response =
  status_code :: nat
  response_url :: string
  json_body :: "pyval option"

datatype event =
    Sent nat http_request
  | SessionClosed nat
  | SessionCreated nat
  | Logwarn string

datatype reply = Reply nat "pyval option" | TimedOut | ConnectionFailed

record env =
  is_shutdown :: "nat \<Rightarrow> bool"
  server :: "nat \<Rightarrow> nat \<Rightarrow> http_request \<Rightarrow> reply"

record client =
  url :: string
  timeout :: real
  session :: nat
  credentials :: dict
  polls :: nat
  sent :: nat
  sessions :: nat
  logins :: nat
  trace :: "event list"

definition FORBIDDEN :: nat where
  "FORBIDDEN = 403"

text \<open>\<open>__init__\<close>: a trailing slash of the base URL is dropped; session 0 is created.\<close>

definition init :: "string \<Rightarrow> string \<Rightarrow> string \<Rightarrow> real \<Rightarrow> client" where
  "init base username password tmo =
     \<lparr>url = (if base \<noteq> [] \<and> last base = CHR ''/'' then butlast base else base),
      timeout = tmo, session = 0,
      credentials = [(''username'', PStr username), (''password'', PStr password)],
      polls = 0, sent = 0, sessions = 1, logins = 0, trace = [SessionCreated 0]\<rparr>"

text \<open>\<open>self.session.request(...)\<close>: one request on the current session.\<close>

definition session_request :: "env \<Rightarrow> http_request \<Rightarrow> client \<Rightarrow> (error + response) \<times> client" where
  "session_request e rq st =
     (let st' = st\<lparr>sent := Suc (sent st), trace := trace st @ [Sent (session st) rq]\<rparr>
      in case server e (sent st) (session st) rq of
           Reply code body \<Rightarrow>
             (Inr \<lparr>status_code = code, response_url = req_url rq, json_body = body\<rparr>, st')
         | TimedOut \<Rightarrow> (Inl Timeout, st')
         | ConnectionFailed \<Rightarrow> (Inl ConnectionError, st'))"

text \<open>\<open>response.raise_for_status()\<close>: a status from 400 to 599 raises \<open>HTTPError\<close>.\<close>

definition raise_for_status :: "response \<Rightarrow> error + unit" where
  "raise_for_status r =
     (if 400 \<le> status_code r \<and> status_code r < 600
      then Inl (HTTPError (status_code r) (response_url r)) else Inr ())"

definition json :: "response \<Rightarrow> error + pyval" where
  "json r = (case json_body r of None \<Rightarrow> Inl JSONDecodeError | Some v \<Rightarrow> Inr v)"

definition login_request :: "client \<Rightarrow> http_request" where
  "login_request st =
     \<lparr>req_method = ''POST'', req_url = url st @ ''/api/login'', req_timeout = timeout st,
      req_kwargs = [(''data'', PDict (credentials st))]\<rparr>"

definition login :: "env \<Rightarrow> client \<Rightarrow> (error + unit) \<times> client" where
  "login e st =
     (case session_request e (login_request st) (st\<lparr>logins := Suc (logins st)\<rparr>) of
        (Inl err, st') \<Rightarrow> (Inl err, st')
      | (Inr r, st') \<Rightarrow> (raise_for_status r, st'))"

text \<open>\<open>self.session.close(); self.session = requests.Session()\<close>, after the warning.\<close>

definition new_session :: "client \<Rightarrow> client" where
  "new_session st =
     st\<lparr>session := sessions st, sessions := Suc (sessions st),
        trace := trace st @ [Logwarn ''Session expired: reauthenticating...'',
                             SessionClosed (session st), SessionCreated (sessions st)]\<rparr>"

text \<open>
  The loop of \<open>__request\<close>. \<open>resp\<close> is the local variable \<open>response\<close>: \<open>None\<close> while
  it is unbound. The loop may run forever (a server that always answers FORBIDDEN and a
  flag that is never set), so the function is partial: \<open>None\<close> is a run that does not
  return. When the flag is set the loop is left and \<open>return response\<close> runs on
  whatever the variable holds.
\<close>

partial_function (option) request_loop ::
  "env \<Rightarrow> http_request \<Rightarrow> response option \<Rightarrow> client \<Rightarrow> ((error + response) \<times> client) option" where
  "request_loop e rq resp st =
     (if is_shutdown e (polls st) then
        Some (case resp of None \<Rightarrow> Inl (UnboundLocalError ''response'') | Some r \<Rightarrow> Inr r,
              st\<lparr>polls := Suc (polls st)\<rparr>)
      else
        (case session_request e rq (st\<lparr>polls := Suc (polls st)\<rparr>) of
           (Inl err, st1) \<Rightarrow> Some (Inl err, st1)
         | (Inr r, st1) \<Rightarrow>
             if status_code r = FORBIDDEN then
               (case login e (new_session st1) of
                  (Inl err, st2) \<Rightarrow> Some (Inl err, st2)
                | (Inr u, st2) \<Rightarrow> request_loop e rq (Some r) st2)
             else
               (case raise_for_status r of
                  Inl err \<Rightarrow> Some (Inl err, st1)
                | Inr u \<Rightarrow> Some (Inr r, st1))))"

text \<open>
  The request that \<open>__request\<close> sends, the same at every iteration: the URL is the base
  URL followed by the URI, with a slash put before a URI that does not start with one.
\<close>

definition request_for :: "client \<Rightarrow> string \<Rightarrow> string \<Rightarrow> dict \<Rightarrow> http_request" where
  "request_for st meth uri kw =
     \<lparr>req_method = meth,
      req_url = url st @ (if uri \<noteq> [] \<and> hd uri = CHR ''/'' then uri else ''/'' @ uri),
      req_timeout = timeout st, req_kwargs = kw\<rparr>"

definition request ::
  "env \<Rightarrow> string \<Rightarrow> string \<Rightarrow> dict \<Rightarrow> client \<Rightarrow> ((error + response) \<times> client) option" where
  "request e meth uri kw st = request_loop e (request_for st meth uri kw) None st"

definition get :: "env \<Rightarrow> string \<Rightarrow> dict \<Rightarrow> client \<Rightarrow> ((error + response) \<times> client) option" where
  "get e = request e ''GET''"

subsection \<open>Targets by id\<close>

text \<open>
  \<open>get_all_targets\<close> builds a Python dictionary whose keys are the \<open>id\<close> values of
  the records. Keys of a dictionary are compared with \<open>==\<close>: numbers (and booleans, which
  are the numbers 0 and 1) by value, everything else structurally. Lists and
  dictionaries cannot be keys (\<open>TypeError\<close>). The dictionary is a list of entries in
  insertion order; storing under an existing key replaces the entry's value.
\<close>

type_synonym pydict = "(pyval \<times> pyval) list"

fun num_of :: "pyval \<Rightarrow> real option" where
  "num_of (PBool b) = Some (if b then 1 else 0)"
| "num_of (PInt i) = Some (of_int i)"
| "num_of (PFloat r) = Some r"
| "num_of v = None"

definition key_eq :: "pyval \<Rightarrow> pyval \<Rightarrow> bool" where
  "key_eq a b =
     (case (num_of a, num_of b) of
        (Some p, Some q) \<Rightarrow> p = q
      | (None, None) \<Rightarrow> a = b
      | _ \<Rightarrow> False)"

fun hashable :: "pyval \<Rightarrow> bool" where
  "hashable (PList vs) = False"
| "hashable (PDict kvs) = False"
| "hashable v = True"

fun setitem :: "pydict \<Rightarrow> pyval \<Rightarrow> pyval \<Rightarrow> pydict" where
  "setitem [] k v = [(k, v)]"
| "setitem ((k', v') # d) k v =
     (if key_eq k' k then (k', v) # d else (k', v') # setitem d k v)"

fun lookup :: "pydict \<Rightarrow> pyval \<Rightarrow> pyval option" where
  "lookup [] k = None"
| "lookup ((k', v') # d) k = (if key_eq k' k then Some v' else lookup d k)"

text \<open>The comprehension \<open>{t["id"]: t for t in response.json()}\<close>.\<close>

fun targets_loop :: "pyval list \<Rightarrow> pydict \<Rightarrow> error + pydict" where
  "targets_loop [] d = Inr d"
| "targets_loop (t # ts) d =
     (case getitem t ''id'' of
        Inl e \<Rightarrow> Inl e
      | Inr k \<Rightarrow> if hashable k then targets_loop ts (setitem d k t) else Inl TypeError)"

definition targets_of :: "pyval \<Rightarrow> error + pydict" where
  "targets_of v = bind_err (py_iter v) (\<lambda>ts. targets_loop ts [])"

definition get_all_targets :: "env \<Rightarrow> client \<Rightarrow> ((error + pydict) \<times> client) option" where
  "get_all_targets e st =
     (case get e ''/api/targets'' [] st of
        None \<Rightarrow> None
      | Some (Inl err, st') \<Rightarrow> Some (Inl err, st')
      | Some (Inr r, st') \<Rightarrow> Some (bind_err (json r) targets_of, st'))"

subsection \<open>Active mission\<close>

text \<open>The loop of \<open>get_active_mission\<close> over the decoded list of missions.\<close>

fun active_loop :: "externals \<Rightarrow> string \<Rightarrow> pyval list \<Rightarrow> error + mission" where
  "active_loop ext frame [] = Inl (LookupError ''No active missions found'')"
| "active_loop ext frame (m # ms) =
     (case getitem m ''active'' of
        Inl e \<Rightarrow> Inl e
      | Inr a \<Rightarrow>
          if truthy a then MissionDeserializer_from_dict ext m frame
          else active_loop ext frame ms)"

definition active_mission_of :: "externals \<Rightarrow> string \<Rightarrow> pyval \<Rightarrow> error + mission" where
  "active_mission_of ext frame v = bind_err (py_iter v) (active_loop ext frame)"

definition get_active_mission ::
  "env \<Rightarrow> externals \<Rightarrow> string \<Rightarrow> client \<Rightarrow> ((error + mission) \<times> client) option" where
  "get_active_mission e ext frame st =
     (case get e ''/api/missions'' [] st of
        None \<Rightarrow> None
      | Some (Inl err, st') \<Rightarrow> Some (Inl err, st')
      | Some (Inr r, st') \<Rightarrow> Some (bind_err (json r) (active_mission_of ext frame), st'))"

section \<open>Test doubles\<close>

text \<open>
  Concrete stand-ins for the collaborators, used where a statement is evaluated on an
  example. \<open>parse_iso8601\<close> reads the one layout
  \<open>YYYY-MM-DDThh:mm:ss[.f][Z|+hh:mm|-hh:mm]\<close>; the real parser accepts many more.
  \<open>test_externals\<close> projects a position by taking the longitude as easting and the
  latitude as northing, reads the clock as \<open>k\<close> seconds at the \<open>k\<close>-th reading, and
  accepts no string as a number.
\<close>

definition digit_of :: "char \<Rightarrow> int option" where
  "digit_of c =
     (let n = (of_char c :: nat) in if 48 \<le> n \<and> n \<le> 57 then Some (int n - 48) else None)"

definition number_of :: "string \<Rightarrow> int option" where
  "number_of s =
     (if s = [] then None
      else map_option (foldl (\<lambda>a d. 10 * a + d) 0) (those (map digit_of s)))"

definition digits_at :: "nat \<Rightarrow> nat \<Rightarrow> string \<Rightarrow> int option" where
  "digits_at i n s = (if length s < i + n then None else number_of (take n (drop i s)))"

definition parse_fraction :: "string \<Rightarrow> (int \<times> string) option" where
  "parse_fraction s =
     (case s of
        c # rest \<Rightarrow>
          if c = CHR ''.'' then
            (let ds = takeWhile (\<lambda>d. digit_of d \<noteq> None) rest
             in if ds = [] \<or> 6 < length ds then None
                else map_option (\<lambda>n. (n * 10 ^ (6 - length ds), drop (length ds) rest))
                       (number_of ds))
          else Some (0, s)
      | [] \<Rightarrow> Some (0, s))"

definition parse_zone :: "string \<Rightarrow> int option option" where
  "parse_zone s =
     (if s = [] then Some None
      else if s = ''Z'' then Some (Some 0)
      else if length s = 6 \<and> (hd s = CHR ''+'' \<or> hd s = CHR ''-'') \<and> s ! 3 = CHR '':'' then
        (case (digits_at 1 2 s, digits_at 4 2 s) of
           (Some h, Some m) \<Rightarrow>
             Some (Some ((if hd s = CHR ''-'' then - 1 else 1) * (h * 3600 + m * 60)))
         | _ \<Rightarrow> None)
      else None)"

definition parse_iso8601 :: "string \<Rightarrow> error + datetime" where
  "parse_iso8601 s =
     (case (digits_at 0 4 s, digits_at 5 2 s, digits_at 8 2 s,
            digits_at 11 2 s, digits_at 14 2 s, digits_at 17 2 s) of
        (Some y, Some mo, Some d, Some h, Some mi, Some sec) \<Rightarrow>
          if s ! 4 = CHR ''-'' \<and> s ! 7 = CHR ''-'' \<and> s ! 10 = CHR ''T''
             \<and> s ! 13 = CHR '':'' \<and> s ! 16 = CHR '':''
             \<and> 1 \<le> y \<and> 1 \<le> mo \<and> mo \<le> 12 \<and> 1 \<le> d \<and> d \<le> 31
             \<and> h < 24 \<and> mi < 60 \<and> sec < 60
          then
            (case parse_fraction (drop 19 s) of
               Some (us, rest) \<Rightarrow>
                 (case parse_zone rest of
                    Some off \<Rightarrow>
                      Inr \<lparr>year = y, month = mo, day = d, hour = h, minute = mi, second = sec,
                           microsecond = us, utcoffset = off\<rparr>
                  | None \<Rightarrow> Inl ValueError)
             | None \<Rightarrow> Inl ValueError)
          else Inl ValueError
      | _ \<Rightarrow> Inl ValueError)"

definition test_externals :: externals where
  "test_externals =
     \<lparr>from_latlon = (\<lambda>lat lon.
        case (num_of lat, num_of lon) of
          (Some a, Some b) \<Rightarrow> Inr (b, a)
        | _ \<Rightarrow> Inl TypeError),
      get_rostime = (\<lambda>k. \<lparr>secs = int k, nsecs = 0\<rparr>),
      parse_float = (\<lambda>s. None),
      parse_int = (\<lambda>s. None),
      str_of = (\<lambda>v. []),
      parse_datetime = parse_iso8601\<rparr>"

text \<open>
  A client for the server at \<open>http://127.0.0.1:8080/\<close>, and four scripted servers: one
  that answers the first request of the run with FORBIDDEN and every later one with 200;
  the same behind a shutdown flag that is set from the second poll on, and behind a flag
  that is set from the start; and one that answers every request, the login included,
  with FORBIDDEN.
\<close>

definition test_client :: client where
  "test_client = init ''http://127.0.0.1:8080/'' ''team'' ''secret'' 1"

definition forbidden_once :: env where
  "forbidden_once =
     \<lparr>is_shutdown = (\<lambda>k. False),
      server = (\<lambda>i sid rq. if i = 0 then Reply 403 None else Reply 200 (Some (PList [])))\<rparr>"

definition shutdown_after_first :: env where
  "shutdown_after_first = forbidden_once\<lparr>is_shutdown := (\<lambda>k. 1 \<le> k)\<rparr>"

definition shutdown_at_start :: env where
  "shutdown_at_start = forbidden_once\<lparr>is_shutdown := (\<lambda>k. True)\<rparr>"


text \<open>A server that answers every request with 200 and the given JSON body.\<close>

definition serving :: "pyval \<Rightarrow> env" where
  "serving v = \<lparr>is_shutdown = (\<lambda>k. False), server = (\<lambda>i sid rq. Reply 200 (Some v))\<rparr>"

section \<open>Vocabulary of the statements\<close>

text \<open>
  The six keys that \<open>MissionDeserializer.from_dict\<close> reads, in the order it reads them,
  and whether the helper of a key raises on a given value.
\<close>

definition required_fields :: "string list" where
  "required_fields = [''fly_zones'', ''search_grid_points'', ''mission_waypoints'',
     ''air_drop_pos'', ''off_axis_target_pos'', ''emergent_last_known_pos'']"

fun raises :: "error + 'a \<Rightarrow> bool" where
  "raises (Inl e) = True"
| "raises (Inr v) = False"

definition field_raises :: "externals \<Rightarrow> string \<Rightarrow> string \<Rightarrow> pyval \<Rightarrow> bool" where
  "field_raises ext frame k v =
     (if k = ''fly_zones'' then raises (get_flyzone ext 0 v frame)
      else if k = ''search_grid_points'' then raises (get_search_grid ext 1 v frame)
      else if k = ''mission_waypoints'' then raises (get_waypoints ext 2 v frame)
      else if k = ''air_drop_pos'' then raises (get_airdrop_loc ext 3 v frame)
      else if k = ''off_axis_target_pos'' then raises (get_offaxis_targ ext 4 v frame)
      else if k = ''emergent_last_known_pos'' then raises (emergent_object ext 5 v frame)
      else False)"

text \<open>
  A message is well typed when it has the declared slots in order and every slot holds a
  value of its declared type: in particular no slot, and no \<open>data\<close> of an enumeration,
  is \<open>None\<close>.
\<close>

fun has_scalar_type :: "scalar_type \<Rightarrow> pyval \<Rightarrow> bool" where
  "has_scalar_type T_str (PStr s) = True"
| "has_scalar_type T_float (PFloat r) = True"
| "has_scalar_type T_int (PInt i) = True"
| "has_scalar_type T_bool (PBool b) = True"
| "has_scalar_type t v = False"

fun has_type :: "field_type \<Rightarrow> pyval \<Rightarrow> bool" where
  "has_type (Scalar t) v = has_scalar_type t v"
| "has_type (Enum c t) (PEnum c' v) = (c = c' \<and> has_scalar_type t v)"
| "has_type (Enum c t) v = False"

definition well_typed :: "slots \<Rightarrow> message \<Rightarrow> bool" where
  "well_typed sl msg = list_all2 (\<lambda>(a, ty) (a', v). a = a' \<and> has_type ty v) sl msg"

text \<open>
  The specification's reading of target deserialization, one field at a time: a declared
  field that is present and not null is converted to its declared type; a null or missing
  field keeps the default.
\<close>

definition merge_field ::
  "externals \<Rightarrow> pyval \<Rightarrow> string \<times> field_type \<Rightarrow> error + string \<times> pyval" where
  "merge_field ext d = (\<lambda>(a, ty).
     bind_err (contains d a) (\<lambda>present.
       if present then
         bind_err (getitem d a) (\<lambda>v.
           if v = PNone then Inr (a, default_value ty)
           else bind_err (construct ext ty v) (\<lambda>c. Inr (a, c)))
       else Inr (a, default_value ty)))"

text \<open>A record has the id \<open>k\<close>; a record has an id that can be a dictionary key.\<close>

definition has_id :: "pyval \<Rightarrow> pyval \<Rightarrow> bool" where
  "has_id k t = (case getitem t ''id'' of Inl e \<Rightarrow> False | Inr k' \<Rightarrow> key_eq k' k)"

definition id_ok :: "pyval \<Rightarrow> bool" where
  "id_ok t = (case getitem t ''id'' of Inl e \<Rightarrow> False | Inr k \<Rightarrow> hashable k)"

text \<open>
  One round of reauthentication, as a change of the state: the poll, the request, the
  warning, the old session closed and a new one created, and the login on the new
  session. \<open>forbidden_round\<close> holds in a state when the flag is not set at the next
  poll, the next request is answered FORBIDDEN, and the login that follows is accepted.
\<close>

definition retried :: "http_request \<Rightarrow> client \<Rightarrow> client" where
  "retried rq st =
     st\<lparr>polls := Suc (polls st), sent := sent st + 2, session := sessions st,
        sessions := Suc (sessions st), logins := Suc (logins st),
        trace := trace st @
          [Sent (session st) rq, Logwarn ''Session expired: reauthenticating...'',
           SessionClosed (session st), SessionCreated (sessions st),
           Sent (sessions st) (login_request st)]\<rparr>"

definition forbidden_round :: "env \<Rightarrow> http_request \<Rightarrow> client \<Rightarrow> bool" where
  "forbidden_round e rq st =
     (\<not> is_shutdown e (polls st)
      \<and> (case server e (sent st) (session st) rq of
            Reply c b \<Rightarrow> c = FORBIDDEN | _ \<Rightarrow> False)
      \<and> (case server e (Suc (sent st)) (sessions st) (login_request st) of
            Reply c b \<Rightarrow> \<not> (400 \<le> c \<and> c < 600) | _ \<Rightarrow> False))"


text \<open>The obstacle payload of the specification's example: one cylinder, no moving obstacles.\<close>

definition example_obstacles :: dict where
  "example_obstacles =
     [(''stationary_obstacles'',
       PList [PDict [(''cylinder_radius'', PInt 10), (''cylinder_height'', PInt 20),
                     (''latitude'', PInt 0), (''longitude'', PInt 0),
                     (''altitude_msl'', PInt 0)]])]"

text \<open>
  A declaration of target fields for the examples (the fields of a target of the
  interoperability server), a target message over it, and an update that converts two
  fields, wraps one, carries a null and an undeclared key, and leaves the rest out.
\<close>

definition target_slots :: slots where
  "target_slots =
     [(''type'', Enum TargetType T_str), (''latitude'', Scalar T_float),
      (''longitude'', Scalar T_float), (''orientation'', Enum Orientation T_str),
      (''shape'', Enum Shape T_str), (''background_color'', Enum Color T_str),
      (''alphanumeric'', Scalar T_str), (''alphanumeric_color'', Enum Color T_str),
      (''description'', Scalar T_str), (''autonomous'', Scalar T_bool)]"

definition example_target :: message where
  "example_target =
     [(''type'', PEnum TargetType (PStr ''standard'')), (''latitude'', PFloat 38.1478),
      (''longitude'', PFloat (- 76.4275)), (''orientation'', PEnum Orientation (PStr ''n'')),
      (''shape'', PEnum Shape (PStr ''star'')), (''background_color'', PEnum Color (PStr ''orange'')),
      (''alphanumeric'', PStr ''C''), (''alphanumeric_color'', PEnum Color (PStr ''black'')),
      (''description'', PStr []), (''autonomous'', PBool False)]"


text \<open>
  Payloads for the examples: three targets of which the first and the last share the id
  1, and a list whose second target has no id; mission records that are complete, with
  the air drop position at latitude \<open>i\<close> for the record with id \<open>i\<close>, in a list whose
  second and third records are active, and in a list without an active record.
\<close>

definition example_targets :: "pyval list" where
  "example_targets =
     [PDict [(''id'', PInt 1), (''type'', PStr ''standard'')],
      PDict [(''id'', PInt 2), (''type'', PStr ''qrc'')],
      PDict [(''id'', PInt 1), (''type'', PStr ''emergent'')]]"

definition targets_without_id :: "pyval list" where
  "targets_without_id =
     [PDict [(''id'', PInt 1), (''type'', PStr ''standard'')],
      PDict [(''type'', PStr ''qrc'')]]"

definition mission_record :: "int \<Rightarrow> bool \<Rightarrow> pyval" where
  "mission_record i a =
     PDict [(''id'', PInt i), (''active'', PBool a), (''fly_zones'', PList []),
            (''search_grid_points'', PList []), (''mission_waypoints'', PList []),
            (''air_drop_pos'', PDict [(''latitude'', PInt i), (''longitude'', PInt 0)]),
            (''off_axis_target_pos'', PDict [(''latitude'', PInt 0), (''longitude'', PInt 0)]),
            (''emergent_last_known_pos'',
             PDict [(''latitude'', PInt 0), (''longitude'', PInt 0)])]"

definition example_missions :: "pyval list" where
  "example_missions = [mission_record 1 False, mission_record 2 True, mission_record 3 True]"

definition inactive_missions :: "pyval list" where
  "inactive_missions = [mission_record 1 False, mission_record 2 False]"

section \<open>Properties\<close>

subsection \<open>Sequencing\<close>

lemma bind_err_simps [simp]:
  "bind_err (Inl e) f = Inl e" "bind_err (Inr v) f = f v"
  by (simp_all add: bind_err_def)

lemma bind_err_InrE:
  assumes "bind_err m f = Inr r"
  obtains v where "m = Inr v" "f v = Inr r"
  using assms by (cases m) auto

lemma for_each_Inr:
  "for_each f vs = Inr rs \<Longrightarrow> list_all2 (\<lambda>v r. f v = Inr r) vs rs"
  by (induction vs arbitrary: rs) (auto split: sum.splits)

subsection \<open>Obstacles\<close>

lemma stationary_marker_Inr:
  "stationary_marker ext hdr life obj = Inr m \<Longrightarrow>
   \<exists>radius height.
     bind_err (getitem obj ''cylinder_radius'') (feet_to_meters ext) = Inr radius
     \<and> bind_err (getitem obj ''cylinder_height'') (feet_to_meters ext) = Inr height
     \<and> shape m = CYLINDER \<and> scale m = Vector3 radius radius height
     \<and> point_z (position (pose m)) = height / 2"
  by (auto simp: stationary_marker_def bind_err_def Marker_init_def split: sum.splits)

lemma obstacles_stationary:
  assumes "ObstaclesDeserializer_from_dict ext (PDict kvs) frame life = Inr (mv, st)"
    and "map_of kvs ''stationary_obstacles'' = Some objs"
  shows "\<exists>vs. py_iter objs = Inr vs \<and>
     list_all2 (\<lambda>obj m. stationary_marker ext (make_header ext 0 frame) life obj = Inr m) vs st"
  using assms
  by (auto simp: ObstaclesDeserializer_from_dict_def bind_err_def Let_def
      split: sum.splits if_splits dest: for_each_Inr)

lemma obstacles_missing_result:
  assumes "ObstaclesDeserializer_from_dict ext (PDict kvs) frame life = Inr (mv, st)"
  shows "(map_of kvs ''moving_obstacles'' = None \<longrightarrow> mv = [])
    \<and> (map_of kvs ''stationary_obstacles'' = None \<longrightarrow> st = [])"
  using assms
  by (auto simp: ObstaclesDeserializer_from_dict_def bind_err_def Let_def
      split: sum.splits if_splits)

text \<open>
  Claim C4. For every input dictionary, a missing \<open>moving_obstacles\<close> or
  \<open>stationary_obstacles\<close> key is handled exactly as an empty list under that key: the
  call behaves as if the key were present with no entries, the collection of that category
  is empty whenever the call returns, and with both keys missing the call returns two
  empty collections. Whenever the call returns, every stationary obstacle entry has
  yielded, in order, a cylinder marker whose scale is the feet-to-meters converted
  \<open>cylinder_radius\<close> (x and y) and \<open>cylinder_height\<close> (z), and whose position Z is
  half the converted height.
\<close>

theorem obstacles_optional_keys:
  "(map_of kvs ''moving_obstacles'' = None \<longrightarrow>
      ObstaclesDeserializer_from_dict ext (PDict kvs) frame life =
      ObstaclesDeserializer_from_dict ext
        (PDict ((''moving_obstacles'', PList []) # kvs)) frame life)
   \<and> (map_of kvs ''stationary_obstacles'' = None \<longrightarrow>
      ObstaclesDeserializer_from_dict ext (PDict kvs) frame life =
      ObstaclesDeserializer_from_dict ext
        (PDict ((''stationary_obstacles'', PList []) # kvs)) frame life)
   \<and> (map_of kvs ''moving_obstacles'' = None \<and> map_of kvs ''stationary_obstacles'' = None \<longrightarrow>
      ObstaclesDeserializer_from_dict ext (PDict kvs) frame life = Inr ([], []))
   \<and> (\<forall>mv st. ObstaclesDeserializer_from_dict ext (PDict kvs) frame life = Inr (mv, st) \<longrightarrow>
        (map_of kvs ''moving_obstacles'' = None \<longrightarrow> mv = [])
        \<and> (map_of kvs ''stationary_obstacles'' = None \<longrightarrow> st = [])
        \<and> (\<forall>objs. map_of kvs ''stationary_obstacles'' = Some objs \<longrightarrow>
             (\<exists>vs. py_iter objs = Inr vs \<and>
                list_all2 (\<lambda>obj m. \<exists>radius height.
                    bind_err (getitem obj ''cylinder_radius'') (feet_to_meters ext) = Inr radius
                    \<and> bind_err (getitem obj ''cylinder_height'') (feet_to_meters ext) = Inr height
                    \<and> shape m = CYLINDER \<and> scale m = Vector3 radius radius height
                    \<and> point_z (position (pose m)) = height / 2) vs st)))"
proof (intro conjI allI impI)
  show "ObstaclesDeserializer_from_dict ext (PDict kvs) frame life =
      ObstaclesDeserializer_from_dict ext (PDict ((''moving_obstacles'', PList []) # kvs)) frame life"
    if "map_of kvs ''moving_obstacles'' = None"
    using that by (simp add: ObstaclesDeserializer_from_dict_def)
  show "ObstaclesDeserializer_from_dict ext (PDict kvs) frame life =
      ObstaclesDeserializer_from_dict ext (PDict ((''stationary_obstacles'', PList []) # kvs)) frame life"
    if "map_of kvs ''stationary_obstacles'' = None"
    using that by (simp add: ObstaclesDeserializer_from_dict_def)
  show "ObstaclesDeserializer_from_dict ext (PDict kvs) frame life = Inr ([], [])"
    if "map_of kvs ''moving_obstacles'' = None \<and> map_of kvs ''stationary_obstacles'' = None"
    using that by (simp add: ObstaclesDeserializer_from_dict_def)
next
  fix mv st
  assume r: "ObstaclesDeserializer_from_dict ext (PDict kvs) frame life = Inr (mv, st)"
  show "mv = []" if "map_of kvs ''moving_obstacles'' = None"
    using obstacles_missing_result[OF r] that by simp
  show "st = []" if "map_of kvs ''stationary_obstacles'' = None"
    using obstacles_missing_result[OF r] that by simp
  show "\<exists>vs. py_iter objs = Inr vs \<and>
      list_all2 (\<lambda>obj m. \<exists>radius height.
          bind_err (getitem obj ''cylinder_radius'') (feet_to_meters ext) = Inr radius
          \<and> bind_err (getitem obj ''cylinder_height'') (feet_to_meters ext) = Inr height
          \<and> shape m = CYLINDER \<and> scale m = Vector3 radius radius height
          \<and> point_z (position (pose m)) = height / 2) vs st"
    if "map_of kvs ''stationary_obstacles'' = Some objs" for objs
  proof -
    from obstacles_stationary[OF r that] obtain vs where vs: "py_iter objs = Inr vs"
      "list_all2 (\<lambda>obj m. stationary_marker ext (make_header ext 0 frame) life obj = Inr m) vs st"
      by blast
    from vs(2) have "list_all2 (\<lambda>obj m. \<exists>radius height.
          bind_err (getitem obj ''cylinder_radius'') (feet_to_meters ext) = Inr radius
          \<and> bind_err (getitem obj ''cylinder_height'') (feet_to_meters ext) = Inr height
          \<and> shape m = CYLINDER \<and> scale m = Vector3 radius radius height
          \<and> point_z (position (pose m)) = height / 2) vs st"
      by (rule list_all2_mono) (rule stationary_marker_Inr)
    with vs(1) show ?thesis by blast
  qed
qed

text \<open>
  The example of the specification: ten feet of radius and twenty feet of height give a
  cylinder of scale 3.048, 3.048, 6.096 centred at height 3.048, and no moving obstacle.
\<close>

lemma example_obstacles_result:
  "\<exists>m. ObstaclesDeserializer_from_dict test_externals (PDict example_obstacles) ''map'' 5 = Inr ([], [m])
     \<and> point_z (position (pose m)) = 3.048 \<and> scale m = Vector3 3.048 3.048 6.096"
  by (simp add: ObstaclesDeserializer_from_dict_def example_obstacles_def stationary_marker_def
      feet_to_meters_def test_externals_def Marker_init_def make_header_def)


theorem obstacles_optional_keys_witness:
  "map_of example_obstacles ''moving_obstacles'' = None
   \<and> ObstaclesDeserializer_from_dict test_externals (PDict example_obstacles) ''map'' 5 =
     ObstaclesDeserializer_from_dict test_externals
       (PDict ((''moving_obstacles'', PList []) # example_obstacles)) ''map'' 5
   \<and> (\<exists>m. ObstaclesDeserializer_from_dict test_externals (PDict example_obstacles) ''map'' 5 =
            Inr ([], [m])
          \<and> point_z (position (pose m)) = 3.048 \<and> scale m = Vector3 3.048 3.048 6.096)"
proof -
  have h: "map_of example_obstacles ''moving_obstacles'' = None"
    by (simp add: example_obstacles_def)
  have e: "ObstaclesDeserializer_from_dict test_externals (PDict example_obstacles) ''map'' 5 =
     ObstaclesDeserializer_from_dict test_externals
       (PDict ((''moving_obstacles'', PList []) # example_obstacles)) ''map'' 5"
    by (rule obstacles_optional_keys[THEN conjunct1, rule_format, OF h])
  from h e example_obstacles_result show ?thesis by (intro conjI)
qed

subsection \<open>Missions with a missing field\<close>

lemma getitem_Inr: "getitem (PDict kvs) k = Inr v \<longleftrightarrow> map_of kvs k = Some v"
  by (simp split: option.splits)

lemma from_dict_Inr_keys:
  assumes "MissionDeserializer_from_dict ext (PDict kvs) frame = Inr r"
  shows "\<forall>k \<in> set required_fields. map_of kvs k \<noteq> None"
  using assms unfolding MissionDeserializer_from_dict_def
  apply (elim bind_err_InrE)
  apply (simp add: required_fields_def getitem_Inr del: getitem.simps)
  done

lemma mission_missing_raises:
  assumes "k \<in> set required_fields" "map_of kvs k = None"
  shows "\<exists>e. MissionDeserializer_from_dict ext (PDict kvs) frame = Inl e"
proof (cases "MissionDeserializer_from_dict ext (PDict kvs) frame")
  case (Inl e) then show ?thesis by blast
next
  case (Inr r)
  from from_dict_Inr_keys[OF this] assms show ?thesis by blast
qed

lemma not_raises_Inr: "\<not> raises m \<Longrightarrow> \<exists>v. m = Inr v"
  by (cases m) auto

lemma miss1:
  "map_of kvs ''fly_zones'' = None \<Longrightarrow>
   MissionDeserializer_from_dict ext (PDict kvs) frame = Inl (KeyError ''fly_zones'')"
  by (simp add: MissionDeserializer_from_dict_def)

lemma miss2:
  assumes "map_of kvs ''fly_zones'' = Some v1" "get_flyzone ext 0 v1 frame = Inr r1"
    "map_of kvs ''search_grid_points'' = None"
  shows "MissionDeserializer_from_dict ext (PDict kvs) frame = Inl (KeyError ''search_grid_points'')"
  using assms by (simp add: MissionDeserializer_from_dict_def)

lemma miss3:
  assumes "map_of kvs ''fly_zones'' = Some v1" "get_flyzone ext 0 v1 frame = Inr r1"
    "map_of kvs ''search_grid_points'' = Some v2" "get_search_grid ext 1 v2 frame = Inr r2"
    "map_of kvs ''mission_waypoints'' = None"
  shows "MissionDeserializer_from_dict ext (PDict kvs) frame = Inl (KeyError ''mission_waypoints'')"
  using assms by (simp add: MissionDeserializer_from_dict_def)

lemma miss4:
  assumes "map_of kvs ''fly_zones'' = Some v1" "get_flyzone ext 0 v1 frame = Inr r1"
    "map_of kvs ''search_grid_points'' = Some v2" "get_search_grid ext 1 v2 frame = Inr r2"
    "map_of kvs ''mission_waypoints'' = Some v3" "get_waypoints ext 2 v3 frame = Inr r3"
    "map_of kvs ''air_drop_pos'' = None"
  shows "MissionDeserializer_from_dict ext (PDict kvs) frame = Inl (KeyError ''air_drop_pos'')"
  using assms by (simp add: MissionDeserializer_from_dict_def)

lemma miss5:
  assumes "map_of kvs ''fly_zones'' = Some v1" "get_flyzone ext 0 v1 frame = Inr r1"
    "map_of kvs ''search_grid_points'' = Some v2" "get_search_grid ext 1 v2 frame = Inr r2"
    "map_of kvs ''mission_waypoints'' = Some v3" "get_waypoints ext 2 v3 frame = Inr r3"
    "map_of kvs ''air_drop_pos'' = Some v4" "get_airdrop_loc ext 3 v4 frame = Inr r4"
    "map_of kvs ''off_axis_target_pos'' = None"
  shows "MissionDeserializer_from_dict ext (PDict kvs) frame = Inl (KeyError ''off_axis_target_pos'')"
  using assms by (simp add: MissionDeserializer_from_dict_def)

lemma miss6:
  assumes "map_of kvs ''fly_zones'' = Some v1" "get_flyzone ext 0 v1 frame = Inr r1"
    "map_of kvs ''search_grid_points'' = Some v2" "get_search_grid ext 1 v2 frame = Inr r2"
    "map_of kvs ''mission_waypoints'' = Some v3" "get_waypoints ext 2 v3 frame = Inr r3"
    "map_of kvs ''air_drop_pos'' = Some v4" "get_airdrop_loc ext 3 v4 frame = Inr r4"
    "map_of kvs ''off_axis_target_pos'' = Some v5" "get_offaxis_targ ext 4 v5 frame = Inr r5"
    "map_of kvs ''emergent_last_known_pos'' = None"
  shows "MissionDeserializer_from_dict ext (PDict kvs) frame = Inl (KeyError ''emergent_last_known_pos'')"
  using assms by (simp add: MissionDeserializer_from_dict_def)


lemma field_ok:
  "\<not> field_raises ext frame ''fly_zones'' v \<Longrightarrow> \<exists>r. get_flyzone ext 0 v frame = Inr r"
  "\<not> field_raises ext frame ''search_grid_points'' v \<Longrightarrow> \<exists>r. get_search_grid ext 1 v frame = Inr r"
  "\<not> field_raises ext frame ''mission_waypoints'' v \<Longrightarrow> \<exists>r. get_waypoints ext 2 v frame = Inr r"
  "\<not> field_raises ext frame ''air_drop_pos'' v \<Longrightarrow> \<exists>r. get_airdrop_loc ext 3 v frame = Inr r"
  "\<not> field_raises ext frame ''off_axis_target_pos'' v \<Longrightarrow> \<exists>r. get_offaxis_targ ext 4 v frame = Inr r"
  by (simp_all add: field_raises_def not_raises_Inr)

lemma before_keys:
  "takeWhile (\<lambda>x. x \<noteq> ''search_grid_points'') required_fields = [''fly_zones'']"
  "takeWhile (\<lambda>x. x \<noteq> ''mission_waypoints'') required_fields = [''fly_zones'', ''search_grid_points'']"
  "takeWhile (\<lambda>x. x \<noteq> ''air_drop_pos'') required_fields =
     [''fly_zones'', ''search_grid_points'', ''mission_waypoints'']"
  "takeWhile (\<lambda>x. x \<noteq> ''off_axis_target_pos'') required_fields =
     [''fly_zones'', ''search_grid_points'', ''mission_waypoints'', ''air_drop_pos'']"
  "takeWhile (\<lambda>x. x \<noteq> ''emergent_last_known_pos'') required_fields =
     [''fly_zones'', ''search_grid_points'', ''mission_waypoints'', ''air_drop_pos'',
      ''off_axis_target_pos'']"
  by (simp_all add: required_fields_def)

lemma mission_first_missing:
  assumes "k \<in> set required_fields" "map_of kvs k = None"
   "\<forall>k' \<in> set (takeWhile (\<lambda>x. x \<noteq> k) required_fields).
       \<exists>v. map_of kvs k' = Some v \<and> \<not> field_raises ext frame k' v"
  shows "MissionDeserializer_from_dict ext (PDict kvs) frame = Inl (KeyError k)"
proof -
  let ?ok = "\<lambda>k'. \<exists>v. map_of kvs k' = Some v \<and> \<not> field_raises ext frame k' v"
  have "k = ''fly_zones'' \<or> k = ''search_grid_points'' \<or> k = ''mission_waypoints''
    \<or> k = ''air_drop_pos'' \<or> k = ''off_axis_target_pos'' \<or> k = ''emergent_last_known_pos''"
    using assms(1) by (simp add: required_fields_def)
  then show ?thesis
  proof (elim disjE)
    assume "k = ''fly_zones''"
    with assms(2) show ?thesis by (simp add: miss1)
  next
    assume k: "k = ''search_grid_points''"
    with assms(3) have "?ok ''fly_zones''" by (simp add: before_keys)
    with assms(2) k show ?thesis by (metis field_ok(1) miss2)
  next
    assume k: "k = ''mission_waypoints''"
    with assms(3) have "?ok ''fly_zones''" "?ok ''search_grid_points''"
      by (simp_all add: before_keys)
    with assms(2) k show ?thesis by (metis field_ok(1,2) miss3)
  next
    assume k: "k = ''air_drop_pos''"
    with assms(3) have "?ok ''fly_zones''" "?ok ''search_grid_points''" "?ok ''mission_waypoints''"
      by (simp_all add: before_keys)
    with assms(2) k show ?thesis by (metis field_ok(1,2,3) miss4)
  next
    assume k: "k = ''off_axis_target_pos''"
    with assms(3) have "?ok ''fly_zones''" "?ok ''search_grid_points''" "?ok ''mission_waypoints''"
      "?ok ''air_drop_pos''"
      by (simp_all add: before_keys)
    with assms(2) k show ?thesis by (metis field_ok(1,2,3,4) miss5)
  next
    assume k: "k = ''emergent_last_known_pos''"
    with assms(3) have "?ok ''fly_zones''" "?ok ''search_grid_points''" "?ok ''mission_waypoints''"
      "?ok ''air_drop_pos''" "?ok ''off_axis_target_pos''"
      by (simp_all add: before_keys)
    with assms(2) k show ?thesis by (metis field_ok(1,2,3,4,5) miss6)
  qed
qed


text \<open>
  Claim C9, as amended. A mission dictionary that lacks one of the six keys read by
  \<open>MissionDeserializer.from_dict\<close> never yields a result: the call raises. When every
  key read before the missing one is present and its helper does not raise on the value,
  the error is the \<open>KeyError\<close> of the missing key. (An error of an earlier field comes
  first otherwise.)
\<close>

theorem mission_missing_field:
  assumes "k \<in> set required_fields" and "map_of kvs k = None"
  shows "(\<exists>e. MissionDeserializer_from_dict ext (PDict kvs) frame = Inl e)
    \<and> ((\<forall>k' \<in> set (takeWhile (\<lambda>x. x \<noteq> k) required_fields).
           \<exists>v. map_of kvs k' = Some v \<and> \<not> field_raises ext frame k' v) \<longrightarrow>
         MissionDeserializer_from_dict ext (PDict kvs) frame = Inl (KeyError k)
         \<and> is_KeyError (KeyError k))"
  using mission_missing_raises[OF assms] mission_first_missing[OF assms] by simp

text \<open>
  A mission with an empty list of fly zones and nothing else: the zones deserialize, and
  the missing search grid raises its \<open>KeyError\<close>.
\<close>

theorem mission_missing_field_witness:
  "''search_grid_points'' \<in> set required_fields
   \<and> map_of [(''fly_zones'', PList [])] ''search_grid_points'' = None
   \<and> MissionDeserializer_from_dict test_externals (PDict [(''fly_zones'', PList [])]) ''map'' =
       Inl (KeyError ''search_grid_points'')"
proof -
  have h1: "''search_grid_points'' \<in> set required_fields"
    by (simp add: required_fields_def)
  have h2: "map_of [(''fly_zones'', PList [])] ''search_grid_points'' = None"
    by simp
  have h3: "\<forall>k' \<in> set (takeWhile (\<lambda>x. x \<noteq> ''search_grid_points'') required_fields).
      \<exists>v. map_of [(''fly_zones'', PList [])] k' = Some v
          \<and> \<not> field_raises test_externals ''map'' k' v"
    by (simp add: before_keys field_raises_def get_flyzone_def)
  have "MissionDeserializer_from_dict test_externals (PDict [(''fly_zones'', PList [])]) ''map'' =
       Inl (KeyError ''search_grid_points'')"
    by (rule mission_missing_field[OF h1 h2, THEN conjunct2, THEN mp, OF h3, THEN conjunct1])
  with h1 h2 show ?thesis by (intro conjI)
qed

text \<open>
  The claim as stated fails: with \<open>fly_zones\<close> present but null and the other five keys
  missing, the loop over the zones raises \<open>TypeError\<close> before any missing key is read.
\<close>

theorem mission_missing_field_counterexample:
  "map_of [(''fly_zones'', PNone)] ''search_grid_points'' = None
   \<and> MissionDeserializer_from_dict test_externals (PDict [(''fly_zones'', PNone)]) ''map'' =
       Inl TypeError
   \<and> \<not> is_KeyError TypeError \<and> \<not> is_LookupError TypeError"
  by (simp add: MissionDeserializer_from_dict_def get_flyzone_def)

subsection \<open>Timestamps\<close>

lemma microseconds_timedelta_new:
  "microseconds (timedelta_new d s us) = us mod 1000000"
proof -
  have "((d * 86400 + s) * 1000000 + us) mod 1000000 = us mod 1000000"
    by (metis mod_mult_self3 mult.commute)
  then show ?thesis by (simp add: timedelta_new_def Let_def)
qed

text \<open>The difference of an aware datetime and the epoch is defined.\<close>

lemma datetime_sub_aware:
  "utcoffset t = Some a \<Longrightarrow>
   \<exists>dt. datetime_sub t epoch = Inr dt \<and> microseconds dt = microsecond t mod 1000000"
  by (simp add: datetime_sub_def Let_def epoch_def microseconds_timedelta_new)

lemma new_year_2020:
  "datetime_sub \<lparr>year = 2020, month = 1, day = 1, hour = 0, minute = 0, second = 0,
                 microsecond = 0, utcoffset = Some 0\<rparr> epoch =
   Inr \<lparr>days = 18262, seconds = 0, microseconds = 0\<rparr>"
  by (simp add: datetime_sub_def epoch_def toordinal_def days_before_year_def
      days_before_month_def is_leap_def timedelta_new_def)

lemma rostime_new_year_2020:
  assumes "parse_datetime ext s =
     Inr \<lparr>year = 2020, month = 1, day = 1, hour = 0, minute = 0, second = 0,
          microsecond = 0, utcoffset = Some 0\<rparr>"
  shows "iso8601_to_rostime ext s = Inr (Time \<lparr>secs = 1577836800, nsecs = 0\<rparr>)"
  using assms new_year_2020
  by (simp add: iso8601_to_rostime_def total_seconds_def py_int_of_float_def)

lemma rostime_naive_is_utc:
  assumes "parse_datetime ext s = Inr t" and "utcoffset t = None"
    and "parse_datetime ext s' = Inr (t\<lparr>utcoffset := Some 0\<rparr>)"
  shows "iso8601_to_rostime ext s = iso8601_to_rostime ext s'"
  using assms by (simp add: iso8601_to_rostime_def)

lemma rostime_nsecs:
  assumes "parse_datetime ext s = Inr t" and "0 \<le> microsecond t" and "microsecond t < 1000000"
  shows "\<exists>sec. iso8601_to_rostime ext s = Inr (Time \<lparr>secs = sec, nsecs = microsecond t * 1000\<rparr>)"
proof -
  let ?t = "if utcoffset t = None \<or> utcoffset t = Some 0 then t\<lparr>utcoffset := Some 0\<rparr> else t"
  have "\<exists>a. utcoffset ?t = Some a" by auto
  then obtain dt where dt: "datetime_sub ?t epoch = Inr dt"
    "microseconds dt = microsecond ?t mod 1000000"
    using datetime_sub_aware by blast
  have "microsecond ?t = microsecond t" by simp
  with dt(2) assms(2,3) have "microseconds dt = microsecond t" by simp
  with dt(1) assms(1) show ?thesis
    by (simp add: iso8601_to_rostime_def Let_def)
qed

lemma parse_iso8601_examples:
  "parse_iso8601 ''2020-01-01T00:00:00Z'' =
     Inr \<lparr>year = 2020, month = 1, day = 1, hour = 0, minute = 0, second = 0,
          microsecond = 0, utcoffset = Some 0\<rparr>"
  "parse_iso8601 ''2020-01-01T00:00:00'' =
     Inr \<lparr>year = 2020, month = 1, day = 1, hour = 0, minute = 0, second = 0,
          microsecond = 0, utcoffset = None\<rparr>"
  "parse_iso8601 ''1969-12-31T23:59:59.25-02:00'' =
     Inr \<lparr>year = 1969, month = 12, day = 31, hour = 23, minute = 59, second = 59,
          microsecond = 250000, utcoffset = Some (- 7200)\<rparr>"
  by (simp_all add: parse_iso8601_def digits_at_def number_of_def digit_of_def
      parse_fraction_def parse_zone_def)

text \<open>
  Claim C6. The parser \<open>dateutil.parser.parse\<close> is a parameter. (1) When it reads
  \<open>2020-01-01T00:00:00Z\<close> as midnight of 1 January 2020 at offset zero, the result is
  1577836800 seconds and 0 nanoseconds. (2) When it reads a string as a datetime without
  offset and another string as the same datetime at offset zero, the two strings give the
  same result, and that is a time, not an error. (3) Whatever datetime the parser returns,
  the call returns a time whose nanoseconds are the microseconds of the datetime times
  1000; the microsecond of a datetime is below one million.
\<close>

theorem iso8601_to_rostime_utc:
  "(parse_datetime ext ''2020-01-01T00:00:00Z'' =
      Inr \<lparr>year = 2020, month = 1, day = 1, hour = 0, minute = 0, second = 0,
           microsecond = 0, utcoffset = Some 0\<rparr> \<longrightarrow>
    iso8601_to_rostime ext ''2020-01-01T00:00:00Z'' =
      Inr (Time \<lparr>secs = 1577836800, nsecs = 0\<rparr>))
   \<and> (parse_datetime ext s = Inr t \<and> utcoffset t = None
       \<and> parse_datetime ext s' = Inr (t\<lparr>utcoffset := Some 0\<rparr>) \<longrightarrow>
      iso8601_to_rostime ext s = iso8601_to_rostime ext s'
      \<and> \<not> raises (iso8601_to_rostime ext s))
   \<and> (parse_datetime ext s = Inr t \<and> 0 \<le> microsecond t \<and> microsecond t < 1000000 \<longrightarrow>
      (\<exists>sec. iso8601_to_rostime ext s =
         Inr (Time \<lparr>secs = sec, nsecs = microsecond t * 1000\<rparr>)))"
proof (intro conjI impI)
  assume "parse_datetime ext ''2020-01-01T00:00:00Z'' =
      Inr \<lparr>year = 2020, month = 1, day = 1, hour = 0, minute = 0, second = 0,
           microsecond = 0, utcoffset = Some 0\<rparr>"
  then show "iso8601_to_rostime ext ''2020-01-01T00:00:00Z'' =
      Inr (Time \<lparr>secs = 1577836800, nsecs = 0\<rparr>)"
    by (rule rostime_new_year_2020)
next
  assume a: "parse_datetime ext s = Inr t \<and> utcoffset t = None
       \<and> parse_datetime ext s' = Inr (t\<lparr>utcoffset := Some 0\<rparr>)"
  then show "iso8601_to_rostime ext s = iso8601_to_rostime ext s'"
    using rostime_naive_is_utc by blast
  from a obtain dt where "datetime_sub (t\<lparr>utcoffset := Some 0\<rparr>) epoch = Inr dt"
    using datetime_sub_aware[of "t\<lparr>utcoffset := Some 0\<rparr>" 0] by auto
  with a show "\<not> raises (iso8601_to_rostime ext s)"
    by (simp add: iso8601_to_rostime_def)
next
  assume "parse_datetime ext s = Inr t \<and> 0 \<le> microsecond t \<and> microsecond t < 1000000"
  then show "\<exists>sec. iso8601_to_rostime ext s =
         Inr (Time \<lparr>secs = sec, nsecs = microsecond t * 1000\<rparr>)"
    using rostime_nsecs by blast
qed

text \<open>
  With the parser of the test doubles: the example of the specification, the same
  string without its \<open>Z\<close>, and a time before the epoch with a fraction and an offset.
\<close>

theorem iso8601_to_rostime_utc_witness:
  "iso8601_to_rostime test_externals ''2020-01-01T00:00:00Z'' =
     Inr (Time \<lparr>secs = 1577836800, nsecs = 0\<rparr>)
   \<and> iso8601_to_rostime test_externals ''2020-01-01T00:00:00'' =
     iso8601_to_rostime test_externals ''2020-01-01T00:00:00Z''
   \<and> (\<exists>sec. iso8601_to_rostime test_externals ''1969-12-31T23:59:59.25-02:00'' =
         Inr (Time \<lparr>secs = sec, nsecs = 250000000\<rparr>))"
proof -
  have p: "parse_datetime test_externals = parse_iso8601"
    by (simp add: test_externals_def)
  let ?t = "\<lparr>year = 2020, month = 1, day = 1, hour = 0, minute = 0, second = 0,
          microsecond = 0, utcoffset = None\<rparr>"
  let ?u = "\<lparr>year = 1969, month = 12, day = 31, hour = 23, minute = 59, second = 59,
          microsecond = 250000, utcoffset = Some (- 7200)\<rparr>"
  have h1: "parse_datetime test_externals ''2020-01-01T00:00:00Z'' =
      Inr \<lparr>year = 2020, month = 1, day = 1, hour = 0, minute = 0, second = 0,
           microsecond = 0, utcoffset = Some 0\<rparr>"
    by (simp only: p parse_iso8601_examples)
  have h2: "parse_datetime test_externals ''2020-01-01T00:00:00'' = Inr ?t \<and> utcoffset ?t = None
      \<and> parse_datetime test_externals ''2020-01-01T00:00:00Z'' = Inr (?t\<lparr>utcoffset := Some 0\<rparr>)"
    by (simp add: p parse_iso8601_examples)
  have h3: "parse_datetime test_externals ''1969-12-31T23:59:59.25-02:00'' = Inr ?u
      \<and> 0 \<le> microsecond ?u \<and> microsecond ?u < 1000000"
    by (simp add: p parse_iso8601_examples)
  note inst = iso8601_to_rostime_utc[of test_externals "''2020-01-01T00:00:00''" ?t
      "''2020-01-01T00:00:00Z''"]
  have c1: "iso8601_to_rostime test_externals ''2020-01-01T00:00:00Z'' =
     Inr (Time \<lparr>secs = 1577836800, nsecs = 0\<rparr>)"
    by (rule inst[THEN conjunct1, THEN mp, OF h1])
  have c2: "iso8601_to_rostime test_externals ''2020-01-01T00:00:00'' =
     iso8601_to_rostime test_externals ''2020-01-01T00:00:00Z''"
    by (rule inst[THEN conjunct2, THEN conjunct1, THEN mp, OF h2, THEN conjunct1])
  have c3: "\<exists>sec. iso8601_to_rostime test_externals ''1969-12-31T23:59:59.25-02:00'' =
         Inr (Time \<lparr>secs = sec, nsecs = microsecond ?u * 1000\<rparr>)"
    by (rule iso8601_to_rostime_utc[of test_externals "''1969-12-31T23:59:59.25-02:00''" ?u,
          THEN conjunct2, THEN conjunct2, THEN mp, OF h3])
  from c1 c2 c3 show ?thesis by simp
qed

subsection \<open>Targets\<close>

lemma construct_unwrap: "has_type ty v \<Longrightarrow> construct ext ty (unwrap v) = Inr v"
  by (cases "(ty, v)" rule: has_type.cases; cases v; cases ty rule: default_value.cases)
     (auto elim: has_scalar_type.elims)

lemma unwrap_not_None: "has_type ty v \<Longrightarrow> unwrap v \<noteq> PNone"
  by (cases "(ty, v)" rule: has_type.cases; cases v; cases ty rule: default_value.cases)
     (auto elim: has_scalar_type.elims)

lemma update_in_suffix:
  "a \<notin> fst ` set t1 \<Longrightarrow> AList.update a c (t1 @ (a, w) # rest) = t1 @ (a, c) # rest"
  by (induction t1) auto

lemma Target_init_Cons: "Target_init ((a, ty) # sl) = (a, default_value ty) # Target_init sl"
  by (simp add: Target_init_def)

text \<open>
  The loop of \<open>from_dict\<close> writes each slot once, at its own place: with distinct slot
  names the message it builds is the list of the fields merged one by one.
\<close>

lemma from_dict_loop_merge:
  "distinct (map fst t1 @ map fst sl) \<Longrightarrow>
   from_dict_loop ext d sl (t1 @ Target_init sl) =
   (case for_each (merge_field ext d) sl of Inl e \<Rightarrow> Inl e | Inr t2 \<Rightarrow> Inr (t1 @ t2))"
proof (induction sl arbitrary: t1)
  case Nil
  then show ?case by (simp add: Target_init_def)
next
  case (Cons p sl)
  obtain a ty where p: "p = (a, ty)" by (cases p)
  from Cons.prems p have notin: "a \<notin> fst ` set t1"
    and d1: "\<And>w. distinct (map fst (t1 @ [(a, w)]) @ map fst sl)"
    by auto
  have step: "\<And>w. from_dict_loop ext d sl (t1 @ (a, w) # Target_init sl) =
      (case for_each (merge_field ext d) sl of Inl e \<Rightarrow> Inl e | Inr t2 \<Rightarrow> Inr (t1 @ (a, w) # t2))"
    using Cons.IH[OF d1] by (simp split: sum.splits)
  show ?case
    unfolding p Target_init_Cons
    by (simp add: step merge_field_def update_in_suffix[OF notin] split: sum.splits)
qed

lemma from_dict_merge:
  assumes "distinct (map fst sl)"
  shows "TargetSerializer_from_dict ext sl d = for_each (merge_field ext d) sl"
  using from_dict_loop_merge[of "[]" sl ext d] assms
  by (simp add: TargetSerializer_from_dict_def split: sum.splits)


lemma map_of_from_msg_aux:
  "map_of (fold (\<lambda>(a, v) d. AList.update a (unwrap v) d) t d0) k =
     (case map_of (rev t) k of Some v \<Rightarrow> Some (unwrap v) | None \<Rightarrow> map_of d0 k)"
  by (induction t arbitrary: d0) (auto simp: update_conv' split: option.splits)

lemma map_of_from_msg:
  assumes "distinct (map fst t)" "(a, v) \<in> set t"
  shows "map_of (fold (\<lambda>(a, v) d. AList.update a (unwrap v) d) t []) a = Some (unwrap v)"
proof -
  from assms have "map_of (rev t) a = Some v"
    by (metis distinct_rev map_of_is_SomeI rev_map set_rev)
  then show ?thesis
    by (simp add: map_of_from_msg_aux)
qed

lemma for_each_roundtrip:
  assumes "list_all2 (\<lambda>(a, ty) (a', v). a = a' \<and> has_type ty v) sl t"
    and "\<forall>(a, v) \<in> set t. map_of kvs a = Some (unwrap v)"
  shows "for_each (merge_field ext (PDict kvs)) sl = Inr t"
  using assms
proof (induction sl t rule: list_all2_induct)
  case Nil then show ?case by simp
next
  case (Cons p sl q t)
  obtain a ty where p: "p = (a, ty)" by (cases p)
  obtain a' v where q: "q = (a', v)" by (cases q)
  from Cons p q have a: "a' = a" "has_type ty v" "map_of kvs a = Some (unwrap v)" by auto
  from Cons have IH: "for_each (merge_field ext (PDict kvs)) sl = Inr t" by auto
  have "merge_field ext (PDict kvs) (a, ty) = Inr (a, v)"
    by (simp add: merge_field_def a unwrap_not_None[OF a(2)] construct_unwrap[OF a(2)])
  then show ?case unfolding p q by (simp add: a IH)
qed

lemma well_typed_names: "well_typed sl t \<Longrightarrow> map fst t = map fst sl"
  unfolding well_typed_def by (induction sl t rule: list_all2_induct) auto

lemma from_msg_unwraps:
  assumes "distinct (map fst t)"
  shows "\<exists>kvs. TargetSerializer_from_msg t = PDict kvs
     \<and> (\<forall>(a, v) \<in> set t. map_of kvs a = Some (unwrap v))"
  using map_of_from_msg[OF assms] by (auto simp: TargetSerializer_from_msg_def)

lemma from_msg_from_dict:
  assumes "distinct (map fst sl)" "well_typed sl t"
  shows "TargetSerializer_from_dict ext sl (TargetSerializer_from_msg t) = Inr t"
proof -
  from assms have dt: "distinct (map fst t)" by (simp add: well_typed_names)
  from from_msg_unwraps[OF dt] obtain kvs where kvs: "TargetSerializer_from_msg t = PDict kvs"
    "\<forall>(a, v) \<in> set t. map_of kvs a = Some (unwrap v)" by blast
  from assms(2) kvs(2) have "for_each (merge_field ext (PDict kvs)) sl = Inr t"
    unfolding well_typed_def by (rule for_each_roundtrip)
  with from_dict_merge[OF assms(1)] kvs(1) show ?thesis by simp
qed

text \<open>
  Claim C5. For a message that holds in every slot a value of the slot's declared type
  (so no field, and no \<open>data\<close> of an enumeration, is null), where the names of the slots
  are distinct: \<open>from_msg\<close> returns a dictionary that has under each name the field's
  value, the \<open>data\<close> in place of an enumeration message; and \<open>from_dict\<close> of that
  dictionary returns the message itself, the enumerations wrapped again.
\<close>

theorem target_roundtrip:
  assumes "distinct (map fst sl)" and "well_typed sl t"
  shows "TargetSerializer_from_dict ext sl (TargetSerializer_from_msg t) = Inr t
    \<and> (\<exists>kvs. TargetSerializer_from_msg t = PDict kvs
          \<and> (\<forall>(a, v) \<in> set t. map_of kvs a = Some (unwrap v)))"
proof -
  from assms have "distinct (map fst t)" by (simp add: well_typed_names)
  then show ?thesis
    using from_msg_from_dict[OF assms] from_msg_unwraps by blast
qed

text \<open>The example target: its dictionary, and the way back.\<close>

theorem target_roundtrip_witness:
  "distinct (map fst target_slots) \<and> well_typed target_slots example_target
   \<and> TargetSerializer_from_msg example_target =
       PDict [(''type'', PStr ''standard''), (''latitude'', PFloat 38.1478),
         (''longitude'', PFloat (- 76.4275)), (''orientation'', PStr ''n''),
         (''shape'', PStr ''star''), (''background_color'', PStr ''orange''),
         (''alphanumeric'', PStr ''C''), (''alphanumeric_color'', PStr ''black''),
         (''description'', PStr []), (''autonomous'', PBool False)]
   \<and> TargetSerializer_from_dict test_externals target_slots
        (TargetSerializer_from_msg example_target) = Inr example_target"
proof -
  have h1: "distinct (map fst target_slots)"
    by (simp add: target_slots_def)
  have h2: "well_typed target_slots example_target"
    by (simp add: well_typed_def target_slots_def example_target_def)
  have h3: "TargetSerializer_from_msg example_target =
       PDict [(''type'', PStr ''standard''), (''latitude'', PFloat 38.1478),
         (''longitude'', PFloat (- 76.4275)), (''orientation'', PStr ''n''),
         (''shape'', PStr ''star''), (''background_color'', PStr ''orange''),
         (''alphanumeric'', PStr ''C''), (''alphanumeric_color'', PStr ''black''),
         (''description'', PStr []), (''autonomous'', PBool False)]"
    by (simp add: TargetSerializer_from_msg_def example_target_def)
  have "TargetSerializer_from_dict test_externals target_slots
        (TargetSerializer_from_msg example_target) = Inr example_target"
    by (rule target_roundtrip[OF h1 h2, THEN conjunct1])
  with h1 h2 h3 show ?thesis by (intro conjI)
qed



subsection \<open>Requests and reauthentication\<close>

text \<open>One round: a FORBIDDEN reply, then an accepted login, and the loop starts again.\<close>

lemma retry_step:
  assumes "forbidden_round e rq st"
  shows "\<exists>b. server e (sent st) (session st) rq = Reply FORBIDDEN b \<and>
     request_loop e rq resp st =
     request_loop e rq
       (Some \<lparr>status_code = FORBIDDEN, response_url = req_url rq, json_body = b\<rparr>)
       (retried rq st)"
proof -
  from assms obtain b c b' where
    h: "\<not> is_shutdown e (polls st)" "server e (sent st) (session st) rq = Reply FORBIDDEN b"
       "server e (Suc (sent st)) (sessions st) (login_request st) = Reply c b'"
       "\<not> (400 \<le> c \<and> c < 600)"
    by (auto simp: forbidden_round_def split: reply.splits)
  let ?r = "\<lparr>status_code = FORBIDDEN, response_url = req_url rq, json_body = b\<rparr>"
  let ?st1 = "st\<lparr>polls := Suc (polls st), sent := Suc (sent st),
                 trace := trace st @ [Sent (session st) rq]\<rparr>"
  have s1: "session_request e rq (st\<lparr>polls := Suc (polls st)\<rparr>) = (Inr ?r, ?st1)"
    using h(2) by (simp add: session_request_def)
  have lr: "login_request (new_session ?st1) = login_request st"
    by (simp add: login_request_def new_session_def)
  from h(4) have ok: "(400 \<le> c \<and> c < 600) = False" by simp
  have s2: "login e (new_session ?st1) = (Inr (), retried rq st)"
    unfolding login_def lr
    using h(3)
    by (simp add: session_request_def new_session_def raise_for_status_def retried_def ok)
  have "request_loop e rq resp st = request_loop e rq (Some ?r) (retried rq st)"
    by (subst request_loop.simps) (simp add: h(1) s1 s2)
  with h(2) show ?thesis by blast
qed

text \<open>
  After \<open>n\<close> rounds the loop is where it started, \<open>n\<close> rounds later, and the variable
  \<open>response\<close> holds the FORBIDDEN reply of the last round.
\<close>

lemma retry_rounds:
  assumes "\<forall>i<n. forbidden_round e rq ((retried rq ^^ i) st)"
  shows "\<exists>resp'. (n = 0 \<longrightarrow> resp' = resp)
      \<and> (0 < n \<longrightarrow>
           (\<exists>b. server e (sent ((retried rq ^^ (n - 1)) st))
                   (session ((retried rq ^^ (n - 1)) st)) rq = Reply FORBIDDEN b
              \<and> resp' = Some \<lparr>status_code = FORBIDDEN, response_url = req_url rq,
                              json_body = b\<rparr>))
      \<and> request_loop e rq resp st = request_loop e rq resp' ((retried rq ^^ n) st)"
  using assms
proof (induction n arbitrary: resp st)
  case 0
  then show ?case by simp
next
  case (Suc n)
  from Suc.prems have first: "forbidden_round e rq st" by force
  from Suc.prems have rest: "\<forall>i<n. forbidden_round e rq ((retried rq ^^ i) (retried rq st))"
    by (metis Suc_less_eq funpow_Suc_right o_apply)
  let ?r = "\<lambda>b. \<lparr>status_code = FORBIDDEN, response_url = req_url rq, json_body = b\<rparr>"
  from retry_step[OF first] obtain b where b: "server e (sent st) (session st) rq = Reply FORBIDDEN b"
    "request_loop e rq resp st = request_loop e rq (Some (?r b)) (retried rq st)" by blast
  from Suc.IH[OF rest, of "Some (?r b)"] obtain resp' where
    r': "n = 0 \<longrightarrow> resp' = Some (?r b)"
    "0 < n \<longrightarrow>
       (\<exists>b. server e (sent ((retried rq ^^ (n - 1)) (retried rq st)))
               (session ((retried rq ^^ (n - 1)) (retried rq st))) rq = Reply FORBIDDEN b
          \<and> resp' = Some (?r b))"
    "request_loop e rq (Some (?r b)) (retried rq st) =
     request_loop e rq resp' ((retried rq ^^ n) (retried rq st))"
    by blast
  have "\<exists>b. server e (sent ((retried rq ^^ n) st)) (session ((retried rq ^^ n) st)) rq =
          Reply FORBIDDEN b \<and> resp' = Some (?r b)"
  proof (cases n)
    case 0
    with b(1) r'(1) show ?thesis by simp
  next
    case (Suc m)
    then have "(retried rq ^^ (n - 1)) (retried rq st) = (retried rq ^^ n) st"
      by (simp add: funpow_swap1)
    with r'(2) Suc show ?thesis by simp
  qed
  with b(2) r'(3) show ?case
    by (intro exI[of _ resp']) (simp add: funpow_swap1)
qed

text \<open>The three ways out of the loop.\<close>

lemma final_round:
  assumes "\<not> is_shutdown e (polls st)" "server e (sent st) (session st) rq = Reply c b"
    "c \<noteq> FORBIDDEN"
  shows "request_loop e rq resp st =
     Some (if 400 \<le> c \<and> c < 600 then Inl (HTTPError c (req_url rq))
           else Inr \<lparr>status_code = c, response_url = req_url rq, json_body = b\<rparr>,
           st\<lparr>polls := Suc (polls st), sent := Suc (sent st),
              trace := trace st @ [Sent (session st) rq]\<rparr>)"
  apply (subst request_loop.simps)
  using assms
  apply (simp add: session_request_def raise_for_status_def)
  done


lemma shutdown_now:
  assumes "is_shutdown e (polls st)"
  shows "request_loop e rq resp st =
     Some (case resp of None \<Rightarrow> Inl (UnboundLocalError ''response'') | Some r \<Rightarrow> Inr r,
           st\<lparr>polls := Suc (polls st)\<rparr>)"
  by (subst request_loop.simps) (simp add: assms)










text \<open>
  Claim C2. The flag is read once per iteration, at the top of the loop. When it is
  found set after \<open>n\<close> rounds, the call returns at once, and what it returns is what
  the variable \<open>response\<close> holds. Before the first request (\<open>n = 0\<close>) the variable is
  unbound and \<open>return response\<close> raises \<open>UnboundLocalError\<close>. After a round
  (\<open>0 < n\<close>) it holds the FORBIDDEN reply to the last sending of the request, and that
  response is returned as the result of the call, where the specification asks for an
  abort that is neither a result nor the FORBIDDEN response.
\<close>

theorem request_on_shutdown:
  fixes st :: client and meth uri :: string and kw :: dict and n :: nat
  defines "rq \<equiv> request_for st meth uri kw"
  defines "st_n \<equiv> (retried rq ^^ n) st"
  assumes "\<forall>i<n. forbidden_round e rq ((retried rq ^^ i) st)"
    and "is_shutdown e (polls st_n)"
  shows "\<exists>res. request e meth uri kw st = Some (res, st_n\<lparr>polls := Suc (polls st_n)\<rparr>)
     \<and> (n = 0 \<longrightarrow> res = Inl (UnboundLocalError ''response''))
     \<and> (0 < n \<longrightarrow>
          (\<exists>b. server e (sent ((retried rq ^^ (n - 1)) st))
                  (session ((retried rq ^^ (n - 1)) st)) rq = Reply FORBIDDEN b
             \<and> res = Inr \<lparr>status_code = FORBIDDEN, response_url = req_url rq,
                           json_body = b\<rparr>))"
proof -
  from retry_rounds[OF assms(3), of None] obtain resp' where
    r: "n = 0 \<longrightarrow> resp' = None"
    "0 < n \<longrightarrow>
       (\<exists>b. server e (sent ((retried rq ^^ (n - 1)) st))
               (session ((retried rq ^^ (n - 1)) st)) rq = Reply FORBIDDEN b
          \<and> resp' = Some \<lparr>status_code = FORBIDDEN, response_url = req_url rq,
                          json_body = b\<rparr>)"
    "request_loop e rq None st = request_loop e rq resp' st_n"
    unfolding st_n_def by blast
  let ?res = "case resp' of None \<Rightarrow> Inl (UnboundLocalError ''response'') | Some r \<Rightarrow> Inr r"
  from r(3) assms(4) have "request e meth uri kw st = Some (?res, st_n\<lparr>polls := Suc (polls st_n)\<rparr>)"
    by (simp add: request_def rq_def shutdown_now)
  moreover from r(1) have "n = 0 \<longrightarrow> ?res = Inl (UnboundLocalError ''response'')"
    by simp
  moreover from r(2) have "0 < n \<longrightarrow>
       (\<exists>b. server e (sent ((retried rq ^^ (n - 1)) st))
               (session ((retried rq ^^ (n - 1)) st)) rq = Reply FORBIDDEN b
          \<and> ?res = Inr \<lparr>status_code = FORBIDDEN, response_url = req_url rq,
                          json_body = b\<rparr>)"
    by auto
  ultimately show ?thesis by blast
qed

text \<open>
  The flag set at the second poll, after a first reply FORBIDDEN and an accepted login:
  the caller receives the FORBIDDEN response. The flag set from the start: the caller
  receives \<open>UnboundLocalError\<close>.
\<close>

theorem request_on_shutdown_witness:
  "map_option fst (request shutdown_after_first ''GET'' ''/api/targets'' [] test_client) =
     Some (Inr \<lparr>status_code = 403, response_url = ''http://127.0.0.1:8080/api/targets'',
                json_body = None\<rparr>)
   \<and> map_option fst (request shutdown_at_start ''GET'' ''/api/targets'' [] test_client) =
     Some (Inl (UnboundLocalError ''response''))"
proof -
  let ?rq = "request_for test_client ''GET'' ''/api/targets'' []"
  have h1: "\<forall>i<1. forbidden_round shutdown_after_first ?rq ((retried ?rq ^^ i) test_client)"
    by (simp add: forbidden_round_def shutdown_after_first_def forbidden_once_def FORBIDDEN_def
        test_client_def init_def)
  have h2: "is_shutdown shutdown_after_first (polls ((retried ?rq ^^ 1) test_client))"
    by (simp add: shutdown_after_first_def retried_def)
  from request_on_shutdown[OF h1 h2] obtain res b where
    r1: "request shutdown_after_first ''GET'' ''/api/targets'' [] test_client =
         Some (res, ((retried ?rq ^^ 1) test_client)
                 \<lparr>polls := Suc (polls ((retried ?rq ^^ 1) test_client))\<rparr>)"
    and b: "server shutdown_after_first (sent ((retried ?rq ^^ (1 - 1)) test_client))
        (session ((retried ?rq ^^ (1 - 1)) test_client)) ?rq = Reply FORBIDDEN b"
    and res: "res = Inr \<lparr>status_code = FORBIDDEN, response_url = req_url ?rq, json_body = b\<rparr>"
    by auto
  from b have "b = None"
    by (simp add: shutdown_after_first_def forbidden_once_def test_client_def init_def)
  with r1 res have c1:
    "map_option fst (request shutdown_after_first ''GET'' ''/api/targets'' [] test_client) =
     Some (Inr \<lparr>status_code = 403, response_url = ''http://127.0.0.1:8080/api/targets'',
                json_body = None\<rparr>)"
    by (simp add: FORBIDDEN_def request_for_def test_client_def init_def)
  have h3: "\<forall>i<0. forbidden_round shutdown_at_start ?rq ((retried ?rq ^^ i) test_client)"
    by simp
  have h4: "is_shutdown shutdown_at_start (polls ((retried ?rq ^^ 0) test_client))"
    by (simp add: shutdown_at_start_def)
  from request_on_shutdown[OF h3 h4] have c2:
    "map_option fst (request shutdown_at_start ''GET'' ''/api/targets'' [] test_client) =
     Some (Inl (UnboundLocalError ''response''))"
    by auto
  from c1 c2 show ?thesis by (rule conjI)
qed

subsection \<open>Targets by id\<close>

text \<open>A server that answers 200 with a JSON body: the request returns at the first round.\<close>

lemma get_serving:
  "get (serving v) uri [] st =
     Some (Inr \<lparr>status_code = 200, response_url = req_url (request_for st ''GET'' uri []),
                json_body = Some v\<rparr>,
           st\<lparr>polls := Suc (polls st), sent := Suc (sent st),
              trace := trace st @ [Sent (session st) (request_for st ''GET'' uri [])]\<rparr>)"
proof -
  have "request_loop (serving v) (request_for st ''GET'' uri []) None st =
     Some (if 400 \<le> (200::nat) \<and> (200::nat) < 600
           then Inl (HTTPError 200 (req_url (request_for st ''GET'' uri [])))
           else Inr \<lparr>status_code = 200, response_url = req_url (request_for st ''GET'' uri []),
                     json_body = Some v\<rparr>,
           st\<lparr>polls := Suc (polls st), sent := Suc (sent st),
              trace := trace st @ [Sent (session st) (request_for st ''GET'' uri [])]\<rparr>)"
    by (rule final_round) (simp_all add: serving_def FORBIDDEN_def)
  then show ?thesis by (simp add: get_def request_def)
qed

text \<open>Equality of keys is an equivalence.\<close>

lemma key_eq_sym: "key_eq a b \<Longrightarrow> key_eq b a"
  by (auto simp: key_eq_def split: option.splits)

lemma key_eq_trans: "key_eq a b \<Longrightarrow> key_eq b c \<Longrightarrow> key_eq a c"
  by (auto simp: key_eq_def split: option.splits)

lemma key_eq_cong: "key_eq a b \<Longrightarrow> key_eq a c = key_eq b c"
  by (meson key_eq_sym key_eq_trans)

lemma lookup_setitem:
  "lookup (setitem d k v) k' = (if key_eq k k' then Some v else lookup d k')"
proof (induction d)
  case Nil then show ?case by simp
next
  case (Cons p d)
  obtain k0 v0 where p: "p = (k0, v0)" by (cases p)
  show ?case
  proof (cases "key_eq k0 k")
    case True
    then have "key_eq k0 k' = key_eq k k'" by (rule key_eq_cong)
    with True show ?thesis unfolding p by simp
  next
    case False
    have "\<not> (key_eq k k' \<and> key_eq k0 k')"
      using False key_eq_sym key_eq_trans by blast
    with False Cons.IH show ?thesis unfolding p by simp
  qed
qed

lemma find_snoc:
  "find P (xs @ [x]) =
     (case find P xs of None \<Rightarrow> (if P x then Some x else None) | Some y \<Rightarrow> Some y)"
  by (induction xs) auto

text \<open>What is stored under a key is the last record with that id.\<close>

lemma targets_loop_lookup:
  "targets_loop ts d = Inr d' \<Longrightarrow>
   lookup d' k = (case find (has_id k) (rev ts) of None \<Rightarrow> lookup d k | Some t \<Rightarrow> Some t)"
proof (induction ts arbitrary: d)
  case Nil then show ?case by simp
next
  case (Cons t ts)
  from Cons.prems obtain k' where k': "getitem t ''id'' = Inr k'" "hashable k'"
    and rest: "targets_loop ts (setitem d k' t) = Inr d'"
    by (auto split: sum.splits if_splits)
  show ?case
    using Cons.IH[OF rest] k'
    by (auto simp: find_snoc lookup_setitem has_id_def split: option.splits)
qed

lemma targets_loop_ok:
  "\<forall>t \<in> set ts. id_ok t \<Longrightarrow> \<exists>d'. targets_loop ts d = Inr d'"
  by (induction ts arbitrary: d) (auto simp: id_ok_def split: sum.splits)

lemma targets_loop_missing:
  assumes "\<forall>t \<in> set pre. id_ok t" "map_of kvs ''id'' = None"
  shows "targets_loop (pre @ PDict kvs # post) d = Inl (KeyError ''id'')"
  using assms by (induction pre arbitrary: d) (auto simp: id_ok_def split: sum.splits)

lemma get_all_targets_of:
  assumes "get e ''/api/targets'' [] st = Some (Inr r, st')" and "json_body r = Some (PList ts)"
  shows "get_all_targets e st = Some (targets_loop ts [], st')"
  using assms by (simp add: get_all_targets_def json_def targets_of_def)

text \<open>
  Claim C10. Let the request for the targets return a response whose body is the JSON
  list \<open>ts\<close>. Whenever \<open>get_all_targets\<close> returns a dictionary, a key is mapped to the
  last record of the list whose \<open>id\<close> equals the key, and to nothing when there is no
  such record; so every record is found under its id unless a later record has the same
  id. It returns a dictionary when every record has an \<open>id\<close> that can be a key. A
  record without the key \<open>id\<close>, after records that have one, raises
  \<open>KeyError\<close> for \<open>id\<close>.
\<close>

theorem get_all_targets_by_id:
  assumes "get e ''/api/targets'' [] st = Some (Inr r, st')"
    and "json_body r = Some (PList ts)"
  shows "(\<forall>d. get_all_targets e st = Some (Inr d, st') \<longrightarrow>
            (\<forall>k. lookup d k = find (has_id k) (rev ts)))
    \<and> ((\<forall>t \<in> set ts. id_ok t) \<longrightarrow> (\<exists>d. get_all_targets e st = Some (Inr d, st')))
    \<and> (ts = pre @ PDict kvs # post \<and> (\<forall>t \<in> set pre. id_ok t) \<and> map_of kvs ''id'' = None \<longrightarrow>
         get_all_targets e st = Some (Inl (KeyError ''id''), st'))"
proof (intro conjI allI impI)
  fix d k
  assume "get_all_targets e st = Some (Inr d, st')"
  with get_all_targets_of[OF assms] have "targets_loop ts [] = Inr d" by simp
  from targets_loop_lookup[OF this, of k]
  show "lookup d k = find (has_id k) (rev ts)"
    by (simp split: option.splits)
next
  assume "\<forall>t \<in> set ts. id_ok t"
  from targets_loop_ok[OF this, of "[]"] get_all_targets_of[OF assms]
  show "\<exists>d. get_all_targets e st = Some (Inr d, st')" by auto
next
  assume "ts = pre @ PDict kvs # post \<and> (\<forall>t \<in> set pre. id_ok t) \<and> map_of kvs ''id'' = None"
  then show "get_all_targets e st = Some (Inl (KeyError ''id''), st')"
    using targets_loop_missing[of pre kvs post "[]"] get_all_targets_of[OF assms] by simp
qed

text \<open>
  Three targets, the first and the last with the id 1: the dictionary has the last under
  1 (also under the float 1.0, equal as a key) and the second under 2, and nothing under
  3. A list whose second target has no id raises \<open>KeyError\<close>.
\<close>

theorem get_all_targets_by_id_witness:
  "map_option fst (get_all_targets (serving (PList example_targets)) test_client) =
     Some (Inr [(PInt 1, PDict [(''id'', PInt 1), (''type'', PStr ''emergent'')]),
                (PInt 2, PDict [(''id'', PInt 2), (''type'', PStr ''qrc'')])])
   \<and> (\<exists>d st'. get_all_targets (serving (PList example_targets)) test_client = Some (Inr d, st')
        \<and> lookup d (PInt 1) = Some (PDict [(''id'', PInt 1), (''type'', PStr ''emergent'')])
        \<and> lookup d (PFloat 1) = Some (PDict [(''id'', PInt 1), (''type'', PStr ''emergent'')])
        \<and> lookup d (PInt 2) = Some (PDict [(''id'', PInt 2), (''type'', PStr ''qrc'')])
        \<and> lookup d (PInt 3) = None)
   \<and> map_option fst (get_all_targets (serving (PList targets_without_id)) test_client) =
     Some (Inl (KeyError ''id''))"
proof -
  let ?r = "\<lambda>v. \<lparr>status_code = 200,
      response_url = req_url (request_for test_client ''GET'' ''/api/targets'' []),
      json_body = Some v\<rparr>"
  let ?st = "test_client\<lparr>polls := Suc (polls test_client), sent := Suc (sent test_client),
      trace := trace test_client
        @ [Sent (session test_client) (request_for test_client ''GET'' ''/api/targets'' [])]\<rparr>"
  have g1: "get (serving (PList example_targets)) ''/api/targets'' [] test_client =
      Some (Inr (?r (PList example_targets)), ?st)"
    by (rule get_serving)
  have j1: "json_body (?r (PList example_targets)) = Some (PList example_targets)"
    by simp
  note inst = get_all_targets_by_id[OF g1 j1]
  have ok: "\<forall>t \<in> set example_targets. id_ok t"
    by (simp add: example_targets_def id_ok_def)
  from inst[THEN conjunct2, THEN conjunct1, THEN mp, OF ok] obtain d where
    d: "get_all_targets (serving (PList example_targets)) test_client = Some (Inr d, ?st)"
    by blast
  from inst[THEN conjunct1, THEN spec, THEN mp, OF d]
  have l: "\<And>k. lookup d k = find (has_id k) (rev example_targets)"
    by blast
  have c2: "\<exists>d st'. get_all_targets (serving (PList example_targets)) test_client =
        Some (Inr d, st')
        \<and> lookup d (PInt 1) = Some (PDict [(''id'', PInt 1), (''type'', PStr ''emergent'')])
        \<and> lookup d (PFloat 1) = Some (PDict [(''id'', PInt 1), (''type'', PStr ''emergent'')])
        \<and> lookup d (PInt 2) = Some (PDict [(''id'', PInt 2), (''type'', PStr ''qrc'')])
        \<and> lookup d (PInt 3) = None"
    using d by (simp add: l example_targets_def has_id_def key_eq_def)
  have c1: "map_option fst (get_all_targets (serving (PList example_targets)) test_client) =
     Some (Inr [(PInt 1, PDict [(''id'', PInt 1), (''type'', PStr ''emergent'')]),
                (PInt 2, PDict [(''id'', PInt 2), (''type'', PStr ''qrc'')])])"
  proof -
    have "targets_loop example_targets [] =
        Inr [(PInt 1, PDict [(''id'', PInt 1), (''type'', PStr ''emergent'')]),
             (PInt 2, PDict [(''id'', PInt 2), (''type'', PStr ''qrc'')])]"
      by (simp add: example_targets_def key_eq_def)
    with get_all_targets_of[OF g1 j1] show ?thesis by simp
  qed
  have g3: "get (serving (PList targets_without_id)) ''/api/targets'' [] test_client =
      Some (Inr (?r (PList targets_without_id)), ?st)"
    by (rule get_serving)
  have j3: "json_body (?r (PList targets_without_id)) = Some (PList targets_without_id)"
    by simp
  have h3: "targets_without_id =
        [PDict [(''id'', PInt 1), (''type'', PStr ''standard'')]]
          @ PDict [(''type'', PStr ''qrc'')] # []
      \<and> (\<forall>t \<in> set [PDict [(''id'', PInt 1), (''type'', PStr ''standard'')]]. id_ok t)
      \<and> map_of [(''type'', PStr ''qrc'')] ''id'' = None"
    by (simp add: targets_without_id_def id_ok_def)
  have "get_all_targets (serving (PList targets_without_id)) test_client =
      Some (Inl (KeyError ''id''), ?st)"
    by (rule get_all_targets_by_id[OF g3 j3, THEN conjunct2, THEN conjunct2, THEN mp, OF h3])
  then have c3:
    "map_option fst (get_all_targets (serving (PList targets_without_id)) test_client) =
     Some (Inl (KeyError ''id''))"
    by simp
  show ?thesis
    by (intro conjI) (rule c1 c2 c3)+
qed

subsection \<open>The active mission\<close>

lemma active_loop_find:
  assumes "\<forall>m \<in> set ms. \<exists>b. getitem m ''active'' = Inr (PBool b)"
  shows "active_loop ext frame ms =
     (case find (\<lambda>m. getitem m ''active'' = Inr (PBool True)) ms of
        None \<Rightarrow> Inl (LookupError ''No active missions found'')
      | Some m \<Rightarrow> MissionDeserializer_from_dict ext m frame)"
  using assms by (induction ms) auto

lemma active_loop_none:
  assumes "\<forall>m \<in> set ms. \<exists>kvs. m = PDict kvs"
    and "\<forall>m \<in> set ms. \<forall>a. getitem m ''active'' = Inr a \<longrightarrow> \<not> truthy a"
  shows "\<exists>err. active_loop ext frame ms = Inl err \<and> is_LookupError err"
  using assms by (induction ms) (auto split: option.splits)

lemma get_active_mission_of:
  assumes "get e ''/api/missions'' [] st = Some (Inr r, st')" and "json_body r = Some (PList ms)"
  shows "get_active_mission e ext frame st = Some (active_loop ext frame ms, st')"
  using assms by (simp add: get_active_mission_def json_def active_mission_of_def)

text \<open>
  Claim C3. Let the request for the missions return a response whose body is the JSON
  list \<open>ms\<close>. When every record carries its boolean \<open>active\<close>, the result is the
  deserialization of the first record of the list whose \<open>active\<close> is true, and the
  \<open>LookupError\<close> of the source when there is none. More generally, when the records are
  JSON objects and none has an \<open>active\<close> that counts as true (a record may lack the key,
  which raises \<open>KeyError\<close>), the call raises an error of the class \<open>LookupError\<close>.
\<close>

theorem get_active_mission_first_active:
  assumes "get e ''/api/missions'' [] st = Some (Inr r, st')"
    and "json_body r = Some (PList ms)"
  shows "((\<forall>m \<in> set ms. \<exists>b. getitem m ''active'' = Inr (PBool b)) \<longrightarrow>
       get_active_mission e ext frame st =
         Some (case find (\<lambda>m. getitem m ''active'' = Inr (PBool True)) ms of
                 None \<Rightarrow> Inl (LookupError ''No active missions found'')
               | Some m \<Rightarrow> MissionDeserializer_from_dict ext m frame,
               st'))
    \<and> ((\<forall>m \<in> set ms. \<exists>kvs. m = PDict kvs)
       \<and> (\<forall>m \<in> set ms. \<forall>a. getitem m ''active'' = Inr a \<longrightarrow> \<not> truthy a) \<longrightarrow>
       (\<exists>err. get_active_mission e ext frame st = Some (Inl err, st') \<and> is_LookupError err))
    \<and> is_LookupError (LookupError ''No active missions found'')"
proof (intro conjI impI)
  assume "\<forall>m \<in> set ms. \<exists>b. getitem m ''active'' = Inr (PBool b)"
  then show "get_active_mission e ext frame st =
         Some (case find (\<lambda>m. getitem m ''active'' = Inr (PBool True)) ms of
                 None \<Rightarrow> Inl (LookupError ''No active missions found'')
               | Some m \<Rightarrow> MissionDeserializer_from_dict ext m frame,
               st')"
    by (simp add: get_active_mission_of[OF assms] active_loop_find)
next
  assume "(\<forall>m \<in> set ms. \<exists>kvs. m = PDict kvs)
       \<and> (\<forall>m \<in> set ms. \<forall>a. getitem m ''active'' = Inr a \<longrightarrow> \<not> truthy a)"
  then have "\<exists>err. active_loop ext frame ms = Inl err \<and> is_LookupError err"
    using active_loop_none by blast
  then show "\<exists>err. get_active_mission e ext frame st = Some (Inl err, st')
      \<and> is_LookupError err"
    by (simp add: get_active_mission_of[OF assms])
next
  show "is_LookupError (LookupError ''No active missions found'')" by simp
qed

text \<open>
  Three complete mission records, the second and the third active: the result is the
  second, with its air drop position at northing 2. Two inactive records: \<open>LookupError\<close>.
  A record with a null \<open>active\<close> and one without the key: an error of that class.
\<close>

theorem get_active_mission_first_active_witness:
  "map_option fst
     (get_active_mission (serving (PList example_missions)) test_externals ''map'' test_client) =
     Some (MissionDeserializer_from_dict test_externals (mission_record 2 True) ''map'')
   \<and> map_sum id (\<lambda>(fz, sg, wp, ad, oa, em). point ad)
       (MissionDeserializer_from_dict test_externals (mission_record 2 True) ''map'') =
     Inr (Point 0 2 0)
   \<and> map_option fst
     (get_active_mission (serving (PList inactive_missions)) test_externals ''map'' test_client) =
     Some (Inl (LookupError ''No active missions found''))
   \<and> (\<exists>err st'.
        get_active_mission
          (serving (PList [PDict [(''id'', PInt 1), (''active'', PNone)], PDict [(''id'', PInt 2)]]))
          test_externals ''map'' test_client = Some (Inl err, st')
        \<and> is_LookupError err)"
proof -
  let ?r = "\<lambda>v. \<lparr>status_code = 200,
      response_url = req_url (request_for test_client ''GET'' ''/api/missions'' []),
      json_body = Some v\<rparr>"
  let ?st = "test_client\<lparr>polls := Suc (polls test_client), sent := Suc (sent test_client),
      trace := trace test_client
        @ [Sent (session test_client) (request_for test_client ''GET'' ''/api/missions'' [])]\<rparr>"
  have g1: "get (serving (PList example_missions)) ''/api/missions'' [] test_client =
      Some (Inr (?r (PList example_missions)), ?st)"
    by (rule get_serving)
  have j1: "json_body (?r (PList example_missions)) = Some (PList example_missions)"
    by simp
  have h1: "\<forall>m \<in> set example_missions. \<exists>b. getitem m ''active'' = Inr (PBool b)"
    by (auto simp: example_missions_def mission_record_def)
  have f1: "find (\<lambda>m. getitem m ''active'' = Inr (PBool True)) example_missions =
      Some (mission_record 2 True)"
    by (simp add: example_missions_def mission_record_def)
  from get_active_mission_first_active[OF g1 j1, THEN conjunct1, THEN mp, OF h1,
      of test_externals "''map''"]
  have c1: "map_option fst
     (get_active_mission (serving (PList example_missions)) test_externals ''map'' test_client) =
     Some (MissionDeserializer_from_dict test_externals (mission_record 2 True) ''map'')"
    by (simp add: f1)
  have c2: "map_sum id (\<lambda>(fz, sg, wp, ad, oa, em). point ad)
       (MissionDeserializer_from_dict test_externals (mission_record 2 True) ''map'') =
     Inr (Point 0 2 0)"
    by (simp add: MissionDeserializer_from_dict_def mission_record_def get_flyzone_def
        get_search_grid_def get_waypoints_def get_airdrop_loc_def get_offaxis_targ_def
        emergent_object_def located_point_def test_externals_def Let_def)
  have g3: "get (serving (PList inactive_missions)) ''/api/missions'' [] test_client =
      Some (Inr (?r (PList inactive_missions)), ?st)"
    by (rule get_serving)
  have j3: "json_body (?r (PList inactive_missions)) = Some (PList inactive_missions)"
    by simp
  have h3: "\<forall>m \<in> set inactive_missions. \<exists>b. getitem m ''active'' = Inr (PBool b)"
    by (auto simp: inactive_missions_def mission_record_def)
  have f3: "find (\<lambda>m. getitem m ''active'' = Inr (PBool True)) inactive_missions = None"
    by (simp add: inactive_missions_def mission_record_def)
  from get_active_mission_first_active[OF g3 j3, THEN conjunct1, THEN mp, OF h3,
      of test_externals "''map''"]
  have c3: "map_option fst
     (get_active_mission (serving (PList inactive_missions)) test_externals ''map'' test_client) =
     Some (Inl (LookupError ''No active missions found''))"
    by (simp add: f3)
  let ?ms = "[PDict [(''id'', PInt 1), (''active'', PNone)], PDict [(''id'', PInt 2)]]"
  have g4: "get (serving (PList ?ms)) ''/api/missions'' [] test_client =
      Some (Inr (?r (PList ?ms)), ?st)"
    by (rule get_serving)
  have j4: "json_body (?r (PList ?ms)) = Some (PList ?ms)"
    by simp
  have h4: "(\<forall>m \<in> set ?ms. \<exists>kvs. m = PDict kvs)
       \<and> (\<forall>m \<in> set ?ms. \<forall>a. getitem m ''active'' = Inr a \<longrightarrow> \<not> truthy a)"
    by simp
  from get_active_mission_first_active[OF g4 j4, THEN conjunct2, THEN conjunct1, THEN mp, OF h4,
      of test_externals "''map''"]
  have c4: "\<exists>err st'.
        get_active_mission (serving (PList ?ms)) test_externals ''map'' test_client =
          Some (Inl err, st')
        \<and> is_LookupError err"
    by blast
  show ?thesis
    by (intro conjI) (rule c1 c2 c3 c4)+
qed

end
